theory Spec2Isabelle
  imports Main
begin

section \<open>Python values read from the extracts\<close>

text \<open>
  \<^verbatim>\<open>load_data.py\<close> reads each extract with \<^verbatim>\<open>pandas.read_csv\<close> and walks its rows.
  A cell of a row is a scalar: a missing cell is the float NaN, \<^verbatim>\<open>row.get(col)\<close> of an
  absent column is \<^verbatim>\<open>None\<close>, and every other cell is a value of which the loader only
  ever uses the text \<^verbatim>\<open>str(value)\<close>. \<open>Val s\<close> is such a value with \<open>str(value) = s\<close>.
  Text is modelled with 8-bit characters (the code points of Latin-1, the encoding the
  sales and identifier extracts are read with).
\<close>

datatype pyval = PyNone | NaN | Val string

datatype py_error = ValueError | OverflowError | FileNotFoundError | UnicodeDecodeError

text \<open>\<^verbatim>\<open>pd.isna(value)\<close> on a scalar.\<close>

definition isna :: "pyval \<Rightarrow> bool" where
  "isna v = (v = PyNone \<or> v = NaN)"

text \<open>\<^verbatim>\<open>str(value)\<close>.\<close>

fun str :: "pyval \<Rightarrow> string" where
  "str PyNone = ''None''"
| "str NaN = ''nan''"
| "str (Val s) = s"

text \<open>
  \<^verbatim>\<open>str.isspace\<close> on one character below code point 256: tab, line feed, vertical tab,
  form feed, carriage return, the separators 0x1C to 0x1F, space, NEL and the
  no-break space.
\<close>

definition py_isspace :: "char \<Rightarrow> bool" where
  "py_isspace c = (of_char c \<in> set [9, 10, 11, 12, 13, 28, 29, 30, 31, 32, 133, 160 :: nat])"

text \<open>\<^verbatim>\<open>s.strip()\<close>: whitespace removed at both ends.\<close>

definition py_strip :: "string \<Rightarrow> string" where
  "py_strip s = rev (dropWhile py_isspace (rev (dropWhile py_isspace s)))"

text \<open>\<^verbatim>\<open>s.replace(c, '')\<close> for a one-character \<open>c\<close>: every occurrence is removed.\<close>

definition remove_char :: "char \<Rightarrow> string \<Rightarrow> string" where
  "remove_char c s = filter (\<lambda>x. x \<noteq> c) s"

text \<open>
  \<^verbatim>\<open>s.zfill(width)\<close>: the text itself when it is already \<open>width\<close> long or longer;
  otherwise zeros are inserted on the left, after a leading sign character if there is
  one.
\<close>

definition zfill :: "string \<Rightarrow> nat \<Rightarrow> string" where
  "zfill s width =
     (if width \<le> length s then s
      else (case s of
              [] \<Rightarrow> replicate width CHR ''0''
            | c # cs \<Rightarrow>
                if c = CHR ''+'' \<or> c = CHR ''-''
                then c # replicate (width - length s) CHR ''0'' @ cs
                else replicate (width - length s) CHR ''0'' @ s))"

text \<open>Truth value of an optional text: \<^verbatim>\<open>None\<close> and the empty text are false.\<close>

fun truthy :: "string option \<Rightarrow> bool" where
  "truthy None = False"
| "truthy (Some s) = (s \<noteq> [])"

text \<open>\<^verbatim>\<open>str(value) or None\<close>.\<close>

definition str_or_none :: "pyval \<Rightarrow> string option" where
  "str_or_none v = (if str v = [] then None else Some (str v))"

text \<open>
  A row of an extract maps column names to cells. \<^verbatim>\<open>row.get(col, '')\<close> gives the empty
  text for an absent column, \<^verbatim>\<open>row.get(col)\<close> gives \<^verbatim>\<open>None\<close>.
\<close>

type_synonym row = "string \<rightharpoonup> pyval"

definition row_get :: "row \<Rightarrow> string \<Rightarrow> pyval \<Rightarrow> pyval" where
  "row_get r col dflt = (case r col of None \<Rightarrow> dflt | Some v \<Rightarrow> v)"

section \<open>Field normalizers\<close>

subsection \<open>\<^verbatim>\<open>datetime.strptime(s, '%Y-%m-%d').date()\<close>\<close>

record date =
  year :: nat
  month :: nat
  day :: nat

definition digit :: "char \<Rightarrow> bool" where
  "digit c = (48 \<le> (of_char c :: nat) \<and> (of_char c :: nat) \<le> 57)"

definition digit_val :: "char \<Rightarrow> nat" where
  "digit_val c = of_char c - 48"

definition digits_val :: "string \<Rightarrow> nat" where
  "digits_val s = foldl (\<lambda>n c. 10 * n + digit_val c) 0 s"

text \<open>
  The directive \<^verbatim>\<open>%m\<close> stands for the pattern \<^verbatim>\<open>1[0-2]|0[1-9]|[1-9]\<close> and \<^verbatim>\<open>%d\<close> for
  \<^verbatim>\<open>3[0-1]|[1-2]\d|0[1-9]|[1-9]| [1-9]\<close>; \<^verbatim>\<open>%Y\<close> is four digits.
\<close>

definition month_text :: "string \<Rightarrow> bool" where
  "month_text m =
     (case m of
        [a] \<Rightarrow> digit a \<and> a \<noteq> CHR ''0''
      | [a, b] \<Rightarrow> (a = CHR ''1'' \<and> digit b \<and> digit_val b \<le> 2)
                   \<or> (a = CHR ''0'' \<and> digit b \<and> b \<noteq> CHR ''0'')
      | _ \<Rightarrow> False)"

definition day_text :: "string \<Rightarrow> bool" where
  "day_text d =
     (case d of
        [a] \<Rightarrow> digit a \<and> a \<noteq> CHR ''0''
      | [a, b] \<Rightarrow> (a = CHR ''3'' \<and> digit b \<and> digit_val b \<le> 1)
                   \<or> ((a = CHR ''1'' \<or> a = CHR ''2'') \<and> digit b)
                   \<or> (a = CHR ''0'' \<and> digit b \<and> b \<noteq> CHR ''0'')
                   \<or> (a = CHR '' '' \<and> digit b \<and> b \<noteq> CHR ''0'')
      | _ \<Rightarrow> False)"

definition leap_year :: "nat \<Rightarrow> bool" where
  "leap_year y = (y mod 4 = 0 \<and> (y mod 100 \<noteq> 0 \<or> y mod 400 = 0))"

definition days_in_month :: "nat \<Rightarrow> nat \<Rightarrow> nat" where
  "days_in_month y m =
     (if m = 2 then (if leap_year y then 29 else 28)
      else if m \<in> set [4, 6, 9, 11] then 30 else 31)"

text \<open>The date constructor raises \<^verbatim>\<open>ValueError\<close> outside the calendar (years start at 1).\<close>

definition make_date :: "nat \<Rightarrow> nat \<Rightarrow> nat \<Rightarrow> py_error + date" where
  "make_date y m d =
     (if 1 \<le> y \<and> 1 \<le> m \<and> m \<le> 12 \<and> 1 \<le> d \<and> d \<le> days_in_month y m
      then Inr \<lparr>year = y, month = m, day = d\<rparr>
      else Inl ValueError)"

text \<open>
  The text must be matched to its end: a year, a dash, a month, a dash and a day, each by
  its pattern. The day's digits are read after dropping a padding space.
\<close>

definition strptime_ymd :: "string \<Rightarrow> py_error + date" where
  "strptime_ymd s =
     (let Y = take 4 s; r1 = drop 4 s in
      if length Y = 4 \<and> list_all digit Y \<and> r1 \<noteq> [] \<and> hd r1 = CHR ''-'' then
        (let r2 = tl r1;
             M = takeWhile (\<lambda>c. c \<noteq> CHR ''-'') r2;
             r3 = dropWhile (\<lambda>c. c \<noteq> CHR ''-'') r2
         in if month_text M \<and> r3 \<noteq> [] \<and> day_text (tl r3)
            then make_date (digits_val Y) (digits_val M)
                   (digits_val (filter (\<lambda>c. c \<noteq> CHR '' '') (tl r3)))
            else Inl ValueError)
      else Inl ValueError)"

subsection \<open>The four normalizers\<close>

text \<open>
  \<^verbatim>\<open>parse_date\<close>: the guard, then the parse inside \<^verbatim>\<open>try\<close>; the bare \<^verbatim>\<open>except\<close> turns every
  exception of the parse into \<^verbatim>\<open>None\<close>.
\<close>

definition parse_date :: "pyval \<Rightarrow> date option" where
  "parse_date date_str =
     (if isna date_str \<or> py_strip (str date_str) = [] then None
      else (case strptime_ymd (py_strip (str date_str)) of
              Inr d \<Rightarrow> Some d
            | Inl e \<Rightarrow> None))"

text \<open>
  \<^verbatim>\<open>parse_decimal\<close> and \<^verbatim>\<open>parse_int\<close> call the builtins \<^verbatim>\<open>float\<close> and \<^verbatim>\<open>int\<close> on the
  cleaned text. The builtins are parameters of the model: a function from the text to
  the exception raised or the number returned.
\<close>

definition parse_decimal :: "(string \<Rightarrow> py_error + 'f) \<Rightarrow> pyval \<Rightarrow> 'f option" where
  "parse_decimal float_builtin v =
     (if isna v \<or> py_strip (str v) = [] then None
      else (let cleaned = py_strip (remove_char CHR '' '' (remove_char CHR '','' (remove_char CHR ''$'' (str v))))
            in if cleaned = [] then None
               else (case float_builtin cleaned of
                       Inr x \<Rightarrow> Some x
                     | Inl e \<Rightarrow> None)))"

definition parse_int :: "(string \<Rightarrow> py_error + int) \<Rightarrow> pyval \<Rightarrow> int option" where
  "parse_int int_builtin v =
     (if isna v \<or> py_strip (str v) = [] then None
      else (let cleaned = py_strip (remove_char CHR '','' (str v))
            in if cleaned = [] then None
               else (case int_builtin cleaned of
                       Inr n \<Rightarrow> Some n
                     | Inl e \<Rightarrow> None)))"

definition zero_pad :: "pyval \<Rightarrow> nat \<Rightarrow> string option" where
  "zero_pad code len =
     (if code = PyNone then None
      else (let code_str = py_strip (str code)
            in if code_str = [] then None else Some (zfill code_str len)))"

section \<open>The tables\<close>

text \<open>
  The schema is not part of the repository. Its columns are read off the \<^verbatim>\<open>INSERT\<close>
  statements of the loaders: a text column holds the text inserted or \<^verbatim>\<open>NULL\<close>, a date
  column a date or \<^verbatim>\<open>NULL\<close>, and a stored value is the value inserted. Every table has
  the surrogate key \<^verbatim>\<open>id\<close> the deduplicator compares; in the model a new row gets an id
  above every id of its table, so a lower id is an earlier insertion. The sales amounts
  are Python floats, a type parameter \<open>'f\<close> of the model.
\<close>

record product_cols =
  p_appl_no :: "string option"
  p_appl_type :: "string option"
  p_ingredient :: "string option"
  p_dosage :: "string option"
  p_form :: "string option"
  p_route :: "string option"
  p_trade_name :: "string option"
  p_applicant :: "string option"
  p_strength :: "string option"
  p_te_code :: "string option"
  p_approval_date :: "date option"
  p_rld :: "string option"
  p_rs :: "string option"
  p_type :: "string option"
  p_applicant_full_name :: "string option"

record product =
  p_id :: nat
  p_cols :: product_cols
  p_number_of_approvals :: "nat option"

record exclusivity_cols =
  e_appl_no :: "string option"
  e_appl_type :: "string option"
  e_ingredient :: "string option"
  e_dosage :: "string option"
  e_form :: "string option"
  e_route :: "string option"
  e_trade_name :: "string option"
  e_strength :: "string option"
  e_exclusivity_code :: "string option"
  e_exclusivity_date :: "date option"

record exclusivity =
  e_id :: nat
  e_cols :: exclusivity_cols

record patent_cols =
  pt_appl_no :: "string option"
  pt_appl_type :: "string option"
  pt_ingredient :: "string option"
  pt_dosage :: "string option"
  pt_form :: "string option"
  pt_route :: "string option"
  pt_trade_name :: "string option"
  pt_applicant :: "string option"
  pt_strength :: "string option"
  pt_patent_no :: "string option"
  pt_patent_expire_date_text :: "string option"
  pt_drug_substance_flag :: "string option"
  pt_drug_product_flag :: "string option"
  pt_patent_use_code :: "string option"
  pt_submission_date :: "date option"

record patent =
  pt_id :: nat
  pt_cols :: patent_cols

record 'f sales_cols =
  s_appl_no :: "string option"
  s_ingredient :: "string option"
  s_route :: "string option"
  s_route_extended :: "string option"
  s_dosage :: "string option"
  s_manufacturer :: "string option"
  s_strength :: "string option"
  s_pack_quantity :: "int option"
  s_ndc_number :: "string option"
  s_labeler_code :: "string option"
  s_product_code :: "string option"
  s_sales :: "'f option"
  s_packs :: "int option"
  s_quantity :: "int option"
  s_wac :: "'f option"
  s_price :: "'f option"
  s_number_of_sellers :: "nat option"

record 'f sale =
  s_id :: nat
  s_cols :: "'f sales_cols"

record 'f store =
  products :: "product list"
  exclusivity :: "exclusivity list"
  patent :: "patent list"
  sales :: "'f sale list"

definition next_id :: "nat list \<Rightarrow> nat" where
  "next_id ids = Suc (foldr max ids 0)"

text \<open>
  \<^verbatim>\<open>cursor.executemany(insert_sql, batch); conn.commit()\<close>: the rows of the batch are
  appended in order. The products statement names no \<^verbatim>\<open>number_of_approvals\<close>, which
  starts as \<^verbatim>\<open>NULL\<close>.
\<close>

fun insert_products :: "product_cols list \<Rightarrow> product list \<Rightarrow> product list" where
  "insert_products [] t = t"
| "insert_products (c # cs) t =
     insert_products cs
       (t @ [\<lparr>p_id = next_id (map p_id t), p_cols = c, p_number_of_approvals = None\<rparr>])"

fun insert_exclusivity :: "exclusivity_cols list \<Rightarrow> exclusivity list \<Rightarrow> exclusivity list" where
  "insert_exclusivity [] t = t"
| "insert_exclusivity (c # cs) t =
     insert_exclusivity cs (t @ [\<lparr>e_id = next_id (map e_id t), e_cols = c\<rparr>])"

fun insert_patent :: "patent_cols list \<Rightarrow> patent list \<Rightarrow> patent list" where
  "insert_patent [] t = t"
| "insert_patent (c # cs) t =
     insert_patent cs (t @ [\<lparr>pt_id = next_id (map pt_id t), pt_cols = c\<rparr>])"

fun insert_sales :: "'f sales_cols list \<Rightarrow> 'f sale list \<Rightarrow> 'f sale list" where
  "insert_sales [] t = t"
| "insert_sales (c # cs) t =
     insert_sales cs (t @ [\<lparr>s_id = next_id (map s_id t), s_cols = c\<rparr>])"

text \<open>The batches a loader commits, in order, applied to a table.\<close>

definition commit_all :: "('c list \<Rightarrow> 't list \<Rightarrow> 't list) \<Rightarrow> 'c list list \<Rightarrow> 't list \<Rightarrow> 't list" where
  "commit_all ins batches t = foldl (\<lambda>t b. ins b t) t batches"

section \<open>Table loaders\<close>

text \<open>
  \<^verbatim>\<open>load_products\<close>, \<^verbatim>\<open>load_patents\<close> and \<^verbatim>\<open>load_sales\<close> run the same loop: append the
  row's tuple to the batch; when \<^verbatim>\<open>len(batch) >= batch_size\<close> commit the batch and start
  an empty one; after the loop commit the batch if it is not empty. The result is the
  list of the batches committed, in order.
\<close>

fun batch_loop :: "('r \<Rightarrow> 'c) \<Rightarrow> nat \<Rightarrow> 'r list \<Rightarrow> 'c list \<Rightarrow> 'c list list \<Rightarrow> 'c list list" where
  "batch_loop tuple batch_size [] batch commits =
     (if batch \<noteq> [] then commits @ [batch] else commits)"
| "batch_loop tuple batch_size (r # rows) batch commits =
     (if batch_size \<le> length (batch @ [tuple r])
      then batch_loop tuple batch_size rows [] (commits @ [batch @ [tuple r]])
      else batch_loop tuple batch_size rows (batch @ [tuple r]) commits)"

definition products_tuple :: "row \<Rightarrow> product_cols" where
  "products_tuple r =
     \<lparr>p_appl_no = str_or_none (row_get r ''Appl_No'' (Val [])),
      p_appl_type = str_or_none (row_get r ''Appl_Type'' (Val [])),
      p_ingredient = str_or_none (row_get r ''Ingredient'' (Val [])),
      p_dosage = str_or_none (row_get r ''Dosage'' (Val [])),
      p_form = str_or_none (row_get r ''Form'' (Val [])),
      p_route = str_or_none (row_get r ''Route'' (Val [])),
      p_trade_name = str_or_none (row_get r ''Trade_Name'' (Val [])),
      p_applicant = str_or_none (row_get r ''Applicant'' (Val [])),
      p_strength = str_or_none (row_get r ''Strength'' (Val [])),
      p_te_code = str_or_none (row_get r ''TE_Code'' (Val [])),
      p_approval_date = parse_date (row_get r ''Approval_Date'' PyNone),
      p_rld = str_or_none (row_get r ''RLD'' (Val [])),
      p_rs = str_or_none (row_get r ''RS'' (Val [])),
      p_type = str_or_none (row_get r ''Type'' (Val [])),
      p_applicant_full_name = str_or_none (row_get r ''Applicant_Full_Name'' (Val []))\<rparr>"

definition load_products :: "row list \<Rightarrow> product_cols list list" where
  "load_products df = batch_loop products_tuple 1000 df [] []"

definition exclusivity_tuple :: "row \<Rightarrow> exclusivity_cols" where
  "exclusivity_tuple r =
     \<lparr>e_appl_no = str_or_none (row_get r ''Appl_No'' (Val [])),
      e_appl_type = str_or_none (row_get r ''Appl_Type'' (Val [])),
      e_ingredient = str_or_none (row_get r ''Ingredient'' (Val [])),
      e_dosage = str_or_none (row_get r ''Dosage'' (Val [])),
      e_form = str_or_none (row_get r ''Form'' (Val [])),
      e_route = str_or_none (row_get r ''Route'' (Val [])),
      e_trade_name = str_or_none (row_get r ''Trade_Name'' (Val [])),
      e_strength = str_or_none (row_get r ''Strength'' (Val [])),
      e_exclusivity_code = str_or_none (row_get r ''Exclusivity_Code'' (Val [])),
      e_exclusivity_date = parse_date (row_get r ''Exclusivity_Date'' PyNone)\<rparr>"

text \<open>
  \<^verbatim>\<open>load_exclusivity\<close> has no size test in its loop: every tuple goes into one batch,
  and the statements after the loop commit that batch whatever its length.
\<close>

definition load_exclusivity :: "row list \<Rightarrow> exclusivity_cols list list" where
  "load_exclusivity df = [map exclusivity_tuple df]"

definition patent_tuple :: "row \<Rightarrow> patent_cols" where
  "patent_tuple r =
     \<lparr>pt_appl_no = str_or_none (row_get r ''Appl_No'' (Val [])),
      pt_appl_type = str_or_none (row_get r ''Appl_Type'' (Val [])),
      pt_ingredient = str_or_none (row_get r ''Ingredient'' (Val [])),
      pt_dosage = str_or_none (row_get r ''Dosage'' (Val [])),
      pt_form = str_or_none (row_get r ''Form'' (Val [])),
      pt_route = str_or_none (row_get r ''Route'' (Val [])),
      pt_trade_name = str_or_none (row_get r ''Trade_Name'' (Val [])),
      pt_applicant = str_or_none (row_get r ''Applicant'' (Val [])),
      pt_strength = str_or_none (row_get r ''Strength'' (Val [])),
      pt_patent_no = str_or_none (row_get r ''Patent_No'' (Val [])),
      pt_patent_expire_date_text = str_or_none (row_get r ''Patent_Expire_Date_Text'' (Val [])),
      pt_drug_substance_flag = str_or_none (row_get r ''Drug_Substance_Flag'' (Val [])),
      pt_drug_product_flag = str_or_none (row_get r ''Drug_Product_Flag'' (Val [])),
      pt_patent_use_code = str_or_none (row_get r ''Patent_Use_Code'' (Val [])),
      pt_submission_date = parse_date (row_get r ''Submission_Date'' PyNone)\<rparr>"

definition load_patents :: "row list \<Rightarrow> patent_cols list list" where
  "load_patents df = batch_loop patent_tuple 1000 df [] []"

section \<open>Cross-reference builder\<close>

type_synonym ndc_lookup = "(string \<times> string) \<rightharpoonup> string"

text \<open>
  One turn of the loop of \<^verbatim>\<open>build_ndc_lookup\<close>: the two codes through \<^verbatim>\<open>zero_pad\<close>, the
  application number trimmed; the entry is written when all three are non-empty and the
  key is absent or holds an empty text.
\<close>

definition ndc_labeler :: "row \<Rightarrow> string option" where
  "ndc_labeler r = zero_pad (row_get r ''Labeler Code'' (Val [])) 5"

definition ndc_product :: "row \<Rightarrow> string option" where
  "ndc_product r = zero_pad (row_get r ''Product Code'' (Val [])) 4"

definition ndc_step :: "ndc_lookup \<Rightarrow> row \<Rightarrow> ndc_lookup" where
  "ndc_step lookup r =
     (let labeler_code = ndc_labeler r;
          product_code = ndc_product r;
          appl_no = py_strip (str (row_get r ''Application Number'' (Val [])))
      in if truthy labeler_code \<and> truthy product_code \<and> appl_no \<noteq> [] \<and> appl_no \<noteq> []
         then (let key = (the labeler_code, the product_code)
               in if lookup key = None \<or> lookup key = Some [] then lookup(key \<mapsto> appl_no)
                  else lookup)
         else lookup)"

definition build_ndc_lookup :: "row list \<Rightarrow> ndc_lookup" where
  "build_ndc_lookup df = foldl ndc_step Map.empty df"

section \<open>Sales loader\<close>

definition sales_appl_no :: "ndc_lookup \<Rightarrow> row \<Rightarrow> string option" where
  "sales_appl_no lookup r =
     (let labeler_code = ndc_labeler r; product_code = ndc_product r
      in if truthy labeler_code \<and> truthy product_code
         then lookup (the labeler_code, the product_code)
         else None)"

definition sales_tuple ::
  "(string \<Rightarrow> py_error + int) \<Rightarrow> (string \<Rightarrow> py_error + 'f) \<Rightarrow> ndc_lookup \<Rightarrow> row \<Rightarrow> 'f sales_cols" where
  "sales_tuple int_builtin float_builtin lookup r =
     \<lparr>s_appl_no = sales_appl_no lookup r,
      s_ingredient = str_or_none (row_get r ''Ingredient'' (Val [])),
      s_route = str_or_none (row_get r ''Route'' (Val [])),
      s_route_extended = str_or_none (row_get r ''Route Ext'' (Val [])),
      s_dosage = str_or_none (row_get r ''Dosage'' (Val [])),
      s_manufacturer = str_or_none (row_get r ''Manufacturer'' (Val [])),
      s_strength = str_or_none (row_get r ''Strength'' (Val [])),
      s_pack_quantity = parse_int int_builtin (row_get r ''Pack_Quantity'' PyNone),
      s_ndc_number =
        (if py_strip (str (row_get r ''NDC Number'' (Val []))) = [] then None
         else Some (py_strip (str (row_get r ''NDC Number'' (Val []))))),
      s_labeler_code = ndc_labeler r,
      s_product_code = ndc_product r,
      s_sales = parse_decimal float_builtin (row_get r ''Sales'' PyNone),
      s_packs = parse_int int_builtin (row_get r ''Packs'' PyNone),
      s_quantity = parse_int int_builtin (row_get r ''Quantity'' PyNone),
      s_wac = parse_decimal float_builtin (row_get r ''WAC'' PyNone),
      s_price = parse_decimal float_builtin (row_get r ''Price'' PyNone),
      s_number_of_sellers = None\<rparr>"

definition load_sales ::
  "(string \<Rightarrow> py_error + int) \<Rightarrow> (string \<Rightarrow> py_error + 'f) \<Rightarrow> ndc_lookup \<Rightarrow> row list
     \<Rightarrow> 'f sales_cols list list" where
  "load_sales int_builtin float_builtin lookup df =
     batch_loop (sales_tuple int_builtin float_builtin lookup) 1000 df [] []"

section \<open>SQL conditions\<close>

text \<open>
  A condition of SQL is true, false or unknown (\<open>None\<close>). A comparison with \<^verbatim>\<open>NULL\<close> is
  unknown, \<^verbatim>\<open>IS NULL\<close> is never unknown, \<^verbatim>\<open>AND\<close> and \<^verbatim>\<open>OR\<close> follow the three-valued
  tables, and \<^verbatim>\<open>WHERE\<close> and \<^verbatim>\<open>ON\<close> keep a row only when the condition is true.
\<close>

text \<open>
  Modelled from the spec: the column types and collations are declared in the schema,
  which the repository does not hold; \<open>=\<close> on two values that are not \<^verbatim>\<open>NULL\<close> is
  the spec's "ordinary equality" of the stored values.
\<close>

definition sql_eq :: "'a option \<Rightarrow> 'a option \<Rightarrow> bool option" where
  "sql_eq a b = (case a of None \<Rightarrow> None | Some x \<Rightarrow> (case b of None \<Rightarrow> None | Some y \<Rightarrow> Some (x = y)))"

definition is_null :: "'a option \<Rightarrow> bool option" where
  "is_null a = Some (a = None)"

definition is_not_null :: "'a option \<Rightarrow> bool option" where
  "is_not_null a = Some (a \<noteq> None)"

definition sql_and :: "bool option \<Rightarrow> bool option \<Rightarrow> bool option" where
  "sql_and a b =
     (if a = Some False \<or> b = Some False then Some False
      else if a = Some True \<and> b = Some True then Some True
      else None)"

definition sql_or :: "bool option \<Rightarrow> bool option \<Rightarrow> bool option" where
  "sql_or a b =
     (if a = Some True \<or> b = Some True then Some True
      else if a = Some False \<and> b = Some False then Some False
      else None)"

definition sql_all :: "bool option list \<Rightarrow> bool option" where
  "sql_all cs = foldr sql_and cs (Some True)"

definition sql_true :: "bool option \<Rightarrow> bool" where
  "sql_true c = (c = Some True)"

text \<open>\<^verbatim>\<open>(a = b OR (a IS NULL AND b IS NULL))\<close>.\<close>

definition null_safe :: "'a option \<Rightarrow> 'a option \<Rightarrow> bool option" where
  "null_safe a b = sql_or (sql_eq a b) (sql_and (is_null a) (is_null b))"

section \<open>Aggregate populator\<close>

text \<open>
  The subquery of \<^verbatim>\<open>populate_number_of_product_approvals\<close>: one row for each
  (ingredient, dosage) of the table, \<^verbatim>\<open>GROUP BY\<close> putting \<^verbatim>\<open>NULL\<close> with \<^verbatim>\<open>NULL\<close>, with
  \<^verbatim>\<open>COUNT(DISTINCT appl_no)\<close>, which counts the distinct values that are not \<^verbatim>\<open>NULL\<close>.
\<close>

definition approvals_subquery :: "product list \<Rightarrow> (string option \<times> string option \<times> nat) list" where
  "approvals_subquery t =
     map (\<lambda>(i, d).
            (i, d,
             length (remdups (List.map_filter (\<lambda>r. p_appl_no (p_cols r))
               (filter (\<lambda>r. p_ingredient (p_cols r) = i \<and> p_dosage (p_cols r) = d) t)))))
         (remdups (map (\<lambda>r. (p_ingredient (p_cols r), p_dosage (p_cols r))) t))"

text \<open>
  The \<^verbatim>\<open>UPDATE ... JOIN ... ON p.ingredient = s.ingredient AND p.dosage = s.dosage\<close>:
  a row joined to a row of the subquery takes its count, a row joined to none is left
  as it is.
\<close>

definition populate_number_of_product_approvals :: "product list \<Rightarrow> product list" where
  "populate_number_of_product_approvals t =
     map (\<lambda>p. case find (\<lambda>(i, d, n).
                      sql_true (sql_and (sql_eq (p_ingredient (p_cols p)) i)
                                        (sql_eq (p_dosage (p_cols p)) d)))
                    (approvals_subquery t) of
                 None \<Rightarrow> p
               | Some (i, d, n) \<Rightarrow> p\<lparr>p_number_of_approvals := Some n\<rparr>)
         t"

definition sellers_subquery :: "'f sale list \<Rightarrow> (string option \<times> string option \<times> nat) list" where
  "sellers_subquery t =
     (let w = filter (\<lambda>r. sql_true (sql_and (is_not_null (s_ingredient (s_cols r)))
                                              (is_not_null (s_dosage (s_cols r))))) t
      in map (\<lambda>(i, d).
                (i, d,
                 length (remdups (List.map_filter (\<lambda>r. s_appl_no (s_cols r))
                   (filter (\<lambda>r. s_ingredient (s_cols r) = i \<and> s_dosage (s_cols r) = d) w)))))
             (remdups (map (\<lambda>r. (s_ingredient (s_cols r), s_dosage (s_cols r))) w)))"

definition populate_number_of_sellers :: "'f sale list \<Rightarrow> 'f sale list" where
  "populate_number_of_sellers t =
     map (\<lambda>s. case find (\<lambda>(i, d, n).
                      sql_true (sql_and (sql_eq (s_ingredient (s_cols s)) i)
                                        (sql_eq (s_dosage (s_cols s)) d)))
                    (sellers_subquery t) of
                 None \<Rightarrow> s
               | Some (i, d, n) \<Rightarrow> s\<lparr>s_cols := (s_cols s)\<lparr>s_number_of_sellers := Some n\<rparr>\<rparr>)
         t"

section \<open>Deduplicator\<close>

text \<open>
  The three \<^verbatim>\<open>WHERE\<close> clauses of \<^verbatim>\<open>remove_duplicates\<close>, condition by condition in the
  order of the source: \<^verbatim>\<open>appl_no\<close> and \<^verbatim>\<open>ingredient\<close> are compared with \<open>=\<close> alone,
  every other column with \<open>=\<close> or \<^verbatim>\<open>NULL\<close> on both sides.
\<close>

definition delete_products_where :: "product \<Rightarrow> product \<Rightarrow> bool option" where
  "delete_products_where p1 p2 =
     sql_all
       [Some (p_id p2 < p_id p1),
        sql_eq (p_appl_no (p_cols p1)) (p_appl_no (p_cols p2)),
        null_safe (p_appl_type (p_cols p1)) (p_appl_type (p_cols p2)),
        sql_eq (p_ingredient (p_cols p1)) (p_ingredient (p_cols p2)),
        null_safe (p_dosage (p_cols p1)) (p_dosage (p_cols p2)),
        null_safe (p_form (p_cols p1)) (p_form (p_cols p2)),
        null_safe (p_route (p_cols p1)) (p_route (p_cols p2)),
        null_safe (p_trade_name (p_cols p1)) (p_trade_name (p_cols p2)),
        null_safe (p_applicant (p_cols p1)) (p_applicant (p_cols p2)),
        null_safe (p_strength (p_cols p1)) (p_strength (p_cols p2)),
        null_safe (p_te_code (p_cols p1)) (p_te_code (p_cols p2)),
        null_safe (p_approval_date (p_cols p1)) (p_approval_date (p_cols p2)),
        null_safe (p_rld (p_cols p1)) (p_rld (p_cols p2)),
        null_safe (p_rs (p_cols p1)) (p_rs (p_cols p2)),
        null_safe (p_type (p_cols p1)) (p_type (p_cols p2)),
        null_safe (p_applicant_full_name (p_cols p1)) (p_applicant_full_name (p_cols p2)),
        null_safe (p_number_of_approvals p1) (p_number_of_approvals p2)]"

definition delete_exclusivity_where :: "exclusivity \<Rightarrow> exclusivity \<Rightarrow> bool option" where
  "delete_exclusivity_where e1 e2 =
     sql_all
       [Some (e_id e2 < e_id e1),
        sql_eq (e_appl_no (e_cols e1)) (e_appl_no (e_cols e2)),
        null_safe (e_appl_type (e_cols e1)) (e_appl_type (e_cols e2)),
        sql_eq (e_ingredient (e_cols e1)) (e_ingredient (e_cols e2)),
        null_safe (e_dosage (e_cols e1)) (e_dosage (e_cols e2)),
        null_safe (e_form (e_cols e1)) (e_form (e_cols e2)),
        null_safe (e_route (e_cols e1)) (e_route (e_cols e2)),
        null_safe (e_trade_name (e_cols e1)) (e_trade_name (e_cols e2)),
        null_safe (e_strength (e_cols e1)) (e_strength (e_cols e2)),
        null_safe (e_exclusivity_code (e_cols e1)) (e_exclusivity_code (e_cols e2)),
        null_safe (e_exclusivity_date (e_cols e1)) (e_exclusivity_date (e_cols e2))]"

definition delete_patent_where :: "patent \<Rightarrow> patent \<Rightarrow> bool option" where
  "delete_patent_where pt1 pt2 =
     sql_all
       [Some (pt_id pt2 < pt_id pt1),
        sql_eq (pt_appl_no (pt_cols pt1)) (pt_appl_no (pt_cols pt2)),
        null_safe (pt_appl_type (pt_cols pt1)) (pt_appl_type (pt_cols pt2)),
        sql_eq (pt_ingredient (pt_cols pt1)) (pt_ingredient (pt_cols pt2)),
        null_safe (pt_dosage (pt_cols pt1)) (pt_dosage (pt_cols pt2)),
        null_safe (pt_form (pt_cols pt1)) (pt_form (pt_cols pt2)),
        null_safe (pt_route (pt_cols pt1)) (pt_route (pt_cols pt2)),
        null_safe (pt_trade_name (pt_cols pt1)) (pt_trade_name (pt_cols pt2)),
        null_safe (pt_applicant (pt_cols pt1)) (pt_applicant (pt_cols pt2)),
        null_safe (pt_strength (pt_cols pt1)) (pt_strength (pt_cols pt2)),
        null_safe (pt_patent_no (pt_cols pt1)) (pt_patent_no (pt_cols pt2)),
        null_safe (pt_patent_expire_date_text (pt_cols pt1)) (pt_patent_expire_date_text (pt_cols pt2)),
        null_safe (pt_drug_substance_flag (pt_cols pt1)) (pt_drug_substance_flag (pt_cols pt2)),
        null_safe (pt_drug_product_flag (pt_cols pt1)) (pt_drug_product_flag (pt_cols pt2)),
        null_safe (pt_patent_use_code (pt_cols pt1)) (pt_patent_use_code (pt_cols pt2)),
        null_safe (pt_submission_date (pt_cols pt1)) (pt_submission_date (pt_cols pt2))]"

text \<open>
  \<^verbatim>\<open>DELETE t1 FROM t t1 INNER JOIN t t2 WHERE ...\<close> deletes every row \<open>t1\<close> of the table
  that the join pairs with some row \<open>t2\<close> of the table as it was before the statement.
\<close>

definition delete_join :: "('r \<Rightarrow> 'r \<Rightarrow> bool option) \<Rightarrow> 'r list \<Rightarrow> 'r list" where
  "delete_join cond t = filter (\<lambda>r1. \<not> list_ex (\<lambda>r2. sql_true (cond r1 r2)) t) t"

definition delete_products :: "product list \<Rightarrow> product list" where
  "delete_products t = delete_join delete_products_where t"

definition delete_exclusivity :: "exclusivity list \<Rightarrow> exclusivity list" where
  "delete_exclusivity t = delete_join delete_exclusivity_where t"

definition delete_patent :: "patent list \<Rightarrow> patent list" where
  "delete_patent t = delete_join delete_patent_where t"

definition remove_duplicates :: "'f store \<Rightarrow> 'f store" where
  "remove_duplicates db =
     db\<lparr>products := delete_products (products db),
        exclusivity := delete_exclusivity (exclusivity db),
        patent := delete_patent (patent db)\<rparr>"

section \<open>Pipeline\<close>

text \<open>
  Each extract is what \<^verbatim>\<open>pandas.read_csv\<close> makes of its file: the exception it raises,
  or the rows. Each loader reads its extract in its first statement, and an exception
  leaves \<^verbatim>\<open>main\<close> through the handler, which rolls back (nothing is pending after a
  failed read) and raises again. The statements sent to the database are taken to
  succeed. The result of \<^verbatim>\<open>main\<close> is the store it leaves and the exception raised, if
  any.
\<close>

record extracts =
  ndc_csv :: "py_error + row list"
  products_csv :: "py_error + row list"
  exclusivity_csv :: "py_error + row list"
  patent_csv :: "py_error + row list"
  sales_csv :: "py_error + row list"

definition stage_products :: "row list \<Rightarrow> 'f store \<Rightarrow> 'f store" where
  "stage_products df db = db\<lparr>products := commit_all insert_products (load_products df) (products db)\<rparr>"

definition stage_exclusivity :: "row list \<Rightarrow> 'f store \<Rightarrow> 'f store" where
  "stage_exclusivity df db =
     db\<lparr>exclusivity := commit_all insert_exclusivity (load_exclusivity df) (exclusivity db)\<rparr>"

definition stage_patents :: "row list \<Rightarrow> 'f store \<Rightarrow> 'f store" where
  "stage_patents df db = db\<lparr>patent := commit_all insert_patent (load_patents df) (patent db)\<rparr>"

definition stage_sales ::
  "(string \<Rightarrow> py_error + int) \<Rightarrow> (string \<Rightarrow> py_error + 'f) \<Rightarrow> ndc_lookup \<Rightarrow> row list
     \<Rightarrow> 'f store \<Rightarrow> 'f store" where
  "stage_sales int_builtin float_builtin lookup df db =
     db\<lparr>sales := commit_all insert_sales (load_sales int_builtin float_builtin lookup df) (sales db)\<rparr>"

definition stage_aggregates :: "'f store \<Rightarrow> 'f store" where
  "stage_aggregates db =
     db\<lparr>products := populate_number_of_product_approvals (products db),
        sales := populate_number_of_sellers (sales db)\<rparr>"

definition main ::
  "(string \<Rightarrow> py_error + int) \<Rightarrow> (string \<Rightarrow> py_error + 'f) \<Rightarrow> extracts \<Rightarrow> 'f store
     \<Rightarrow> 'f store \<times> py_error option" where
  "main int_builtin float_builtin x db =
     (case ndc_csv x of
        Inl e \<Rightarrow> (db, Some e)
      | Inr ndc_df \<Rightarrow>
     (case products_csv x of
        Inl e \<Rightarrow> (db, Some e)
      | Inr products_df \<Rightarrow>
     (case exclusivity_csv x of
        Inl e \<Rightarrow> (stage_products products_df db, Some e)
      | Inr exclusivity_df \<Rightarrow>
     (case patent_csv x of
        Inl e \<Rightarrow> (stage_exclusivity exclusivity_df (stage_products products_df db), Some e)
      | Inr patent_df \<Rightarrow>
     (case sales_csv x of
        Inl e \<Rightarrow>
          (stage_patents patent_df
             (stage_exclusivity exclusivity_df (stage_products products_df db)), Some e)
      | Inr sales_df \<Rightarrow>
          (remove_duplicates (stage_aggregates
             (stage_sales int_builtin float_builtin (build_ndc_lookup ndc_df) sales_df
                (stage_patents patent_df
                   (stage_exclusivity exclusivity_df (stage_products products_df db))))),
           None))))))"

section \<open>Row identity, as specified\<close>

text \<open>
  The identity of a row in the words of the spec: the tuple of all business columns,
  compared null-safe (\<^verbatim>\<open>NULL\<close> equals \<^verbatim>\<open>NULL\<close>, otherwise ordinary equality). On optional
  values that is equality, column by column, so on the records of columns it is equality
  of the records; for products the derived count belongs to the tuple.
\<close>

definition products_same_tuple :: "product \<Rightarrow> product \<Rightarrow> bool" where
  "products_same_tuple r r' =
     (p_cols r = p_cols r' \<and> p_number_of_approvals r = p_number_of_approvals r')"

definition exclusivity_same_tuple :: "exclusivity \<Rightarrow> exclusivity \<Rightarrow> bool" where
  "exclusivity_same_tuple r r' = (e_cols r = e_cols r')"

definition patent_same_tuple :: "patent \<Rightarrow> patent \<Rightarrow> bool" where
  "patent_same_tuple r r' = (pt_cols r = pt_cols r')"

text \<open>
  The identity the statements of \<^verbatim>\<open>remove_duplicates\<close> compare: the same tuple, with an
  application number and an ingredient that are not \<^verbatim>\<open>NULL\<close>.
\<close>

definition products_duplicate :: "product \<Rightarrow> product \<Rightarrow> bool" where
  "products_duplicate r r' =
     (p_appl_no (p_cols r) \<noteq> None \<and> p_ingredient (p_cols r) \<noteq> None \<and> products_same_tuple r r')"

definition exclusivity_duplicate :: "exclusivity \<Rightarrow> exclusivity \<Rightarrow> bool" where
  "exclusivity_duplicate r r' =
     (e_appl_no (e_cols r) \<noteq> None \<and> e_ingredient (e_cols r) \<noteq> None \<and> exclusivity_same_tuple r r')"

definition patent_duplicate :: "patent \<Rightarrow> patent \<Rightarrow> bool" where
  "patent_duplicate r r' =
     (pt_appl_no (pt_cols r) \<noteq> None \<and> pt_ingredient (pt_cols r) \<noteq> None \<and> patent_same_tuple r r')"

section \<open>Example rows\<close>

text \<open>Rows and tables the properties below are evaluated on.\<close>

definition aspirin_cols :: product_cols where
  "aspirin_cols =
     \<lparr>p_appl_no = Some ''N001'', p_appl_type = Some ''N'', p_ingredient = Some ''ASPIRIN'',
      p_dosage = Some ''81MG'', p_form = Some ''TABLET'', p_route = Some ''ORAL'',
      p_trade_name = Some ''BAYER'', p_applicant = Some ''BAYER'', p_strength = Some ''81MG'',
      p_te_code = None, p_approval_date = Some \<lparr>year = 2001, month = 1, day = 5\<rparr>,
      p_rld = Some ''Yes'', p_rs = Some ''No'', p_type = Some ''OTC'',
      p_applicant_full_name = Some ''BAYER HEALTHCARE''\<rparr>"

definition product_row :: "nat \<Rightarrow> product_cols \<Rightarrow> nat option \<Rightarrow> product" where
  "product_row i c n = \<lparr>p_id = i, p_cols = c, p_number_of_approvals = n\<rparr>"

definition dup_table :: "product list" where
  "dup_table =
     [product_row 1 aspirin_cols (Some 3),
      product_row 2 (aspirin_cols\<lparr>p_dosage := Some ''325MG''\<rparr>) (Some 1),
      product_row 3 aspirin_cols (Some 3)]"

definition exclusivity_example_cols :: exclusivity_cols where
  "exclusivity_example_cols =
     \<lparr>e_appl_no = Some ''N001'', e_appl_type = Some ''N'', e_ingredient = Some ''ASPIRIN'',
      e_dosage = Some ''81MG'', e_form = Some ''TABLET'', e_route = Some ''ORAL'',
      e_trade_name = Some ''BAYER'', e_strength = Some ''81MG'', e_exclusivity_code = None,
      e_exclusivity_date = Some \<lparr>year = 2030, month = 6, day = 30\<rparr>\<rparr>"

definition patent_example_cols :: patent_cols where
  "patent_example_cols =
     \<lparr>pt_appl_no = Some ''N001'', pt_appl_type = Some ''N'', pt_ingredient = Some ''ASPIRIN'',
      pt_dosage = Some ''81MG'', pt_form = Some ''TABLET'', pt_route = Some ''ORAL'',
      pt_trade_name = Some ''BAYER'', pt_applicant = Some ''BAYER'', pt_strength = Some ''81MG'',
      pt_patent_no = Some ''7654321'', pt_patent_expire_date_text = Some ''Jun 30, 2030'',
      pt_drug_substance_flag = None, pt_drug_product_flag = Some ''Y'',
      pt_patent_use_code = None, pt_submission_date = None\<rparr>"

definition exclusivity_dup_table :: "exclusivity list" where
  "exclusivity_dup_table =
     [\<lparr>e_id = 1, e_cols = exclusivity_example_cols\<rparr>, \<lparr>e_id = 2, e_cols = exclusivity_example_cols\<rparr>]"

definition patent_dup_table :: "patent list" where
  "patent_dup_table =
     [\<lparr>pt_id = 1, pt_cols = patent_example_cols\<rparr>, \<lparr>pt_id = 2, pt_cols = patent_example_cols\<rparr>]"

definition null_key_table :: "product list" where
  "null_key_table =
     [product_row 1 (aspirin_cols\<lparr>p_appl_no := None\<rparr>) None,
      product_row 2 (aspirin_cols\<lparr>p_appl_no := None\<rparr>) None]"

definition te_code_table :: "product list" where
  "te_code_table =
     [product_row 1 aspirin_cols (Some 3),
      product_row 2 (aspirin_cols\<lparr>p_te_code := Some ''AB''\<rparr>) (Some 3)]"

section \<open>Batching, as specified\<close>

text \<open>
  The batches of the spec: the rows cut into runs of the batch size, the last run holding
  the remainder when there is one, and no empty run.
\<close>

function batches_of :: "nat \<Rightarrow> 'a list \<Rightarrow> 'a list list" where
  "batches_of n xs =
     (if xs = [] then []
      else if n = 0 then [xs]
      else take n xs # batches_of n (drop n xs))"
  by pat_completeness auto
termination
  by (relation "measure (\<lambda>(n, xs). length xs)") auto

section \<open>Cross-reference candidates, as specified\<close>

text \<open>
  The candidate a row of the identifier extract offers, in the words of the spec: none
  when either code normalizes to empty or the application number is blank after
  trimming, otherwise the key of the two normalized codes with the trimmed number.
\<close>

definition ndc_entry :: "row \<Rightarrow> ((string \<times> string) \<times> string) option" where
  "ndc_entry r =
     (case ndc_labeler r of
        None \<Rightarrow> None
      | Some l \<Rightarrow>
          (case ndc_product r of
             None \<Rightarrow> None
           | Some p \<Rightarrow>
               if py_strip (str (row_get r ''Application Number'' (Val []))) = [] then None
               else Some ((l, p), py_strip (str (row_get r ''Application Number'' (Val []))))))"

definition ndc_row :: "string \<Rightarrow> string \<Rightarrow> string \<Rightarrow> row" where
  "ndc_row labeler product appl =
     [''Labeler Code'' \<mapsto> Val labeler, ''Product Code'' \<mapsto> Val product,
      ''Application Number'' \<mapsto> Val appl]"

definition sales_row :: "string \<Rightarrow> string \<Rightarrow> row" where
  "sales_row labeler product =
     [''Labeler Code'' \<mapsto> Val labeler, ''Product Code'' \<mapsto> Val product,
      ''Ingredient'' \<mapsto> Val ''ASPIRIN'', ''Dosage'' \<mapsto> Val ''TABLET'',
      ''Sales'' \<mapsto> Val ''$1,250'', ''Packs'' \<mapsto> Val ''3'']"

text \<open>
  For the examples the builtins \<^verbatim>\<open>int\<close> and \<^verbatim>\<open>float\<close> are instantiated by a reader of
  unsigned decimal digit strings, the number kept as an integer; it raises on any other
  text.
\<close>

definition read_digits :: "string \<Rightarrow> py_error + int" where
  "read_digits s =
     (if s \<noteq> [] \<and> list_all digit s then Inr (int (digits_val s)) else Inl ValueError)"

definition empty_store :: "int store" where
  "empty_store = \<lparr>products = [], exclusivity = [], patent = [], sales = []\<rparr>"

section \<open>Approval count, as specified\<close>

text \<open>
  The number of distinct application numbers among the rows of the table with the given
  ingredient and dosage.
\<close>

definition approvals_in_group :: "product list \<Rightarrow> string option \<Rightarrow> string option \<Rightarrow> nat" where
  "approvals_in_group t i d =
     card {a. \<exists>r \<in> set t. p_ingredient (p_cols r) = i \<and> p_dosage (p_cols r) = d
                \<and> p_appl_no (p_cols r) = Some a}"

definition aspirin_table :: "product list" where
  "aspirin_table =
     [product_row 1 aspirin_cols None,
      product_row 2 (aspirin_cols\<lparr>p_appl_no := Some ''N002''\<rparr>) None,
      product_row 3 (aspirin_cols\<lparr>p_appl_no := Some ''N003''\<rparr>) None,
      product_row 4 (aspirin_cols\<lparr>p_appl_no := Some ''N004'', p_dosage := Some ''325MG''\<rparr>) None]"

definition null_dosage_table :: "product list" where
  "null_dosage_table = [product_row 1 (aspirin_cols\<lparr>p_dosage := None\<rparr>) None]"

definition products_row :: "string \<Rightarrow> row" where
  "products_row appl =
     [''Appl_No'' \<mapsto> Val appl, ''Ingredient'' \<mapsto> Val ''ASPIRIN'', ''Dosage'' \<mapsto> Val ''81MG'',
      ''Approval_Date'' \<mapsto> Val ''2001-01-05'']"

definition readable_extracts :: extracts where
  "readable_extracts =
     \<lparr>ndc_csv = Inr [ndc_row ''123'' ''45'' ''N001''],
      products_csv = Inr [products_row ''N001''],
      exclusivity_csv = Inr [products_row ''N001''],
      patent_csv = Inr [products_row ''N001''],
      sales_csv = Inr [sales_row ''123'' ''45'']\<rparr>"

definition exclusivity_unreadable :: extracts where
  "exclusivity_unreadable = readable_extracts\<lparr>exclusivity_csv := Inl FileNotFoundError\<rparr>"

section \<open>The date format, as specified\<close>

text \<open>
  A text in the format \<^verbatim>\<open>YYYY-MM-DD\<close> of the spec: four digits, a dash, two digits, a
  dash and two digits.
\<close>

definition ymd_format :: "string \<Rightarrow> bool" where
  "ymd_format s =
     (length s = 10 \<and> list_all digit (take 4 s) \<and> s ! 4 = CHR ''-''
      \<and> list_all digit (take 2 (drop 5 s)) \<and> s ! 7 = CHR ''-'' \<and> list_all digit (drop 8 s))"

section \<open>Properties of the field normalizers\<close>

lemma length_zfill: "length (zfill s w) = max w (length s)"
  by (cases s) (auto simp: zfill_def)

lemma zfill_long: "w \<le> length s \<Longrightarrow> zfill s w = s"
  by (simp add: zfill_def)

lemma zfill_unsigned:
  "s \<noteq> [] \<Longrightarrow> hd s \<noteq> CHR ''+'' \<Longrightarrow> hd s \<noteq> CHR ''-'' \<Longrightarrow>
   zfill s w = replicate (w - length s) CHR ''0'' @ s"
  by (cases s) (auto simp: zfill_def)

lemma zfill_signed:
  "s \<noteq> [] \<Longrightarrow> hd s = CHR ''+'' \<or> hd s = CHR ''-'' \<Longrightarrow>
   zfill s w = hd s # replicate (w - length s) CHR ''0'' @ tl s"
  by (cases s) (auto simp: zfill_def)

lemma zfill_nonempty: "s \<noteq> [] \<Longrightarrow> zfill s w \<noteq> []"
  by (cases s) (auto simp: zfill_def)

text \<open>
  C10 (as amended). \<^verbatim>\<open>zero_pad\<close> never truncates: for every input other than \<^verbatim>\<open>None\<close>
  whose trimmed text is not empty, the result is the trimmed text filled with zeros up
  to the width, of length the maximum of the width and the trimmed text's length; a
  trimmed text at least as long as the width is returned unchanged; the zeros are put
  on the left of the text, except that they follow a leading sign character \<open>+\<close> or
  \<open>-\<close> when there is one.
\<close>

theorem zero_pad_never_truncates:
  assumes "code \<noteq> PyNone" and "py_strip (str code) \<noteq> []"
  shows "zero_pad code w = Some (zfill (py_strip (str code)) w)
     \<and> length (zfill (py_strip (str code)) w) = max w (length (py_strip (str code)))
     \<and> (w \<le> length (py_strip (str code)) \<longrightarrow> zfill (py_strip (str code)) w = py_strip (str code))
     \<and> (hd (py_strip (str code)) \<noteq> CHR ''+'' \<and> hd (py_strip (str code)) \<noteq> CHR ''-'' \<longrightarrow>
          zfill (py_strip (str code)) w
            = replicate (w - length (py_strip (str code))) CHR ''0'' @ py_strip (str code))
     \<and> (hd (py_strip (str code)) = CHR ''+'' \<or> hd (py_strip (str code)) = CHR ''-'' \<longrightarrow>
          zfill (py_strip (str code)) w
            = hd (py_strip (str code))
              # replicate (w - length (py_strip (str code))) CHR ''0'' @ tl (py_strip (str code)))"
  using assms
  by (simp add: zero_pad_def Let_def length_zfill zfill_long zfill_unsigned zfill_signed)

lemma strip_12: "py_strip '' 12 '' = ''12''"
  by (simp add: py_strip_def py_isspace_def)

theorem zero_pad_never_truncates_witness:
  "Val '' 12 '' \<noteq> PyNone \<and> py_strip (str (Val '' 12 '')) \<noteq> []
   \<and> zero_pad (Val '' 12 '') 4 = Some ''0012''
   \<and> length ''0012'' = max 4 (length ''12'')"
  using zero_pad_never_truncates [of "Val '' 12 ''" 4]
  by (simp add: strip_12 zfill_def numeral_2_eq_2)

text \<open>
  C10 as stated fails on a signed text: \<^verbatim>\<open>zero_pad("-12", 5)\<close> is \<^verbatim>\<open>"-0012"\<close>, which is
  not the trimmed text with zeros on its left (\<^verbatim>\<open>"00-12"\<close>).
\<close>

theorem zero_pad_left_pad_counterexample:
  "\<not> (\<forall>s w. py_strip s \<noteq> [] \<longrightarrow>
        zero_pad (Val s) w = Some (replicate (w - length (py_strip s)) CHR ''0'' @ py_strip s))"
proof
  assume "\<forall>s w. py_strip s \<noteq> [] \<longrightarrow>
        zero_pad (Val s) w = Some (replicate (w - length (py_strip s)) CHR ''0'' @ py_strip s)"
  then have "py_strip ''-12'' \<noteq> [] \<longrightarrow>
        zero_pad (Val ''-12'') 5 = Some (replicate (5 - length (py_strip ''-12'')) CHR ''0'' @ py_strip ''-12'')"
    by blast
  then show False
    by (simp add: zero_pad_def py_strip_def py_isspace_def zfill_def numeral_2_eq_2)
qed

section \<open>Properties of the deduplicator\<close>

lemma sql_true_sql_eq: "sql_true (sql_eq a b) \<longleftrightarrow> a \<noteq> None \<and> a = b"
  by (cases a; cases b) (auto simp: sql_true_def sql_eq_def)

lemma sql_true_null_safe: "sql_true (null_safe a b) \<longleftrightarrow> a = b"
  by (cases a; cases b) (auto simp: sql_true_def null_safe_def sql_eq_def sql_or_def sql_and_def is_null_def)

lemma sql_true_sql_and: "sql_true (sql_and a b) \<longleftrightarrow> sql_true a \<and> sql_true b"
  by (auto simp: sql_true_def sql_and_def)

lemma sql_true_sql_all_Nil: "sql_true (sql_all [])"
  by (simp add: sql_true_def sql_all_def)

lemma sql_true_sql_all_Cons: "sql_true (sql_all (c # cs)) \<longleftrightarrow> sql_true c \<and> sql_true (sql_all cs)"
  by (simp add: sql_all_def sql_true_sql_and)

lemma sql_true_Some: "sql_true (Some b) \<longleftrightarrow> b"
  by (simp add: sql_true_def)

lemmas sql_true_simps = sql_true_sql_eq sql_true_null_safe sql_true_sql_all_Nil
  sql_true_sql_all_Cons sql_true_Some

lemma delete_products_where_iff:
  "sql_true (delete_products_where p1 p2) \<longleftrightarrow> p_id p2 < p_id p1 \<and> products_duplicate p1 p2"
  unfolding delete_products_where_def products_duplicate_def products_same_tuple_def
  by (cases "p_cols p1"; cases "p_cols p2") (auto simp: sql_true_simps)

lemma delete_exclusivity_where_iff:
  "sql_true (delete_exclusivity_where p1 p2) \<longleftrightarrow> e_id p2 < e_id p1 \<and> exclusivity_duplicate p1 p2"
  unfolding delete_exclusivity_where_def exclusivity_duplicate_def exclusivity_same_tuple_def
  by (cases "e_cols p1"; cases "e_cols p2") (auto simp: sql_true_simps)

lemma delete_patent_where_iff:
  "sql_true (delete_patent_where p1 p2) \<longleftrightarrow> pt_id p2 < pt_id p1 \<and> patent_duplicate p1 p2"
  unfolding delete_patent_where_def patent_duplicate_def patent_same_tuple_def
  by (cases "pt_cols p1"; cases "pt_cols p2") (auto simp: sql_true_simps)

lemma delete_join_filter:
  "delete_join cond t = filter (\<lambda>r1. \<not> (\<exists>r2 \<in> set t. sql_true (cond r1 r2))) t"
  by (simp add: delete_join_def list_ex_iff)

lemma delete_join_min_survives:
  fixes ident :: "'r \<Rightarrow> nat"
  assumes cond: "\<And>r1 r2. sql_true (cond r1 r2) \<longleftrightarrow> ident r2 < ident r1 \<and> dup r1 r2"
    and r: "r \<in> set t"
    and low: "\<forall>r' \<in> set t. dup r r' \<longrightarrow> ident r \<le> ident r'"
  shows "r \<in> set (delete_join cond t)"
  using r low by (auto simp: delete_join_filter cond)

lemma delete_join_survivor:
  fixes ident :: "'r \<Rightarrow> nat"
  assumes cond: "\<And>r1 r2. sql_true (cond r1 r2) \<longleftrightarrow> ident r2 < ident r1 \<and> dup r1 r2"
    and sym: "\<And>a b. dup a b \<Longrightarrow> dup b a"
    and trans: "\<And>a b c. dup a b \<Longrightarrow> dup b c \<Longrightarrow> dup a c"
    and inj: "distinct (map ident t)"
    and r: "r \<in> set t" "dup r r"
  shows "\<exists>s. s \<in> set (delete_join cond t) \<and> dup r s
           \<and> (\<forall>r' \<in> set t. dup r r' \<longrightarrow> ident s \<le> ident r')
           \<and> (\<forall>s'. s' \<in> set (delete_join cond t) \<and> dup r s' \<longrightarrow> s' = s)"
proof -
  define C where "C = {s \<in> set t. dup r s}"
  have fin: "finite C" and ne: "C \<noteq> {}"
    using r by (auto simp: C_def)
  define s where "s = arg_min_on ident C"
  have sC: "s \<in> C"
    unfolding s_def by (rule arg_min_if_finite [OF fin ne])
  have least: "ident s \<le> ident y" if "y \<in> C" for y
    unfolding s_def by (rule arg_min_least [OF fin ne that])
  have st: "s \<in> set t" and rs: "dup r s"
    using sC by (auto simp: C_def)
  have surv: "s \<in> set (delete_join cond t)"
  proof -
    have "\<not> (ident r2 < ident s \<and> dup s r2)" if "r2 \<in> set t" for r2
    proof
      assume a: "ident r2 < ident s \<and> dup s r2"
      then have "dup r r2" using rs trans by blast
      then have "r2 \<in> C" using that by (simp add: C_def)
      then have "ident s \<le> ident r2" by (rule least)
      with a show False by simp
    qed
    then show ?thesis using st by (auto simp: delete_join_filter cond)
  qed
  have uniq: "s' = s" if s': "s' \<in> set (delete_join cond t)" and rs': "dup r s'" for s'
  proof -
    have s't: "s' \<in> set t" using s' by (simp add: delete_join_filter)
    then have "s' \<in> C" using rs' by (simp add: C_def)
    then have le: "ident s \<le> ident s'" by (rule least)
    have "dup s' s" using rs rs' sym trans by blast
    then have "\<not> ident s < ident s'"
      using s' st by (auto simp: delete_join_filter cond)
    with le have "ident s' = ident s" by simp
    with inj s't st show ?thesis by (auto simp: distinct_map inj_on_def)
  qed
  have low: "\<forall>r' \<in> set t. dup r r' \<longrightarrow> ident s \<le> ident r'"
    using least by (simp add: C_def)
  have one: "\<forall>s'. s' \<in> set (delete_join cond t) \<and> dup r s' \<longrightarrow> s' = s"
    using uniq by blast
  from surv rs low one show ?thesis
    by blast
qed

lemma products_duplicate_sym: "products_duplicate a b \<Longrightarrow> products_duplicate b a"
  by (auto simp: products_duplicate_def products_same_tuple_def)

lemma products_duplicate_trans:
  "products_duplicate a b \<Longrightarrow> products_duplicate b c \<Longrightarrow> products_duplicate a c"
  by (auto simp: products_duplicate_def products_same_tuple_def)

lemma exclusivity_duplicate_sym: "exclusivity_duplicate a b \<Longrightarrow> exclusivity_duplicate b a"
  by (auto simp: exclusivity_duplicate_def exclusivity_same_tuple_def)

lemma exclusivity_duplicate_trans:
  "exclusivity_duplicate a b \<Longrightarrow> exclusivity_duplicate b c \<Longrightarrow> exclusivity_duplicate a c"
  by (auto simp: exclusivity_duplicate_def exclusivity_same_tuple_def)

lemma patent_duplicate_sym: "patent_duplicate a b \<Longrightarrow> patent_duplicate b a"
  by (auto simp: patent_duplicate_def patent_same_tuple_def)

lemma patent_duplicate_trans:
  "patent_duplicate a b \<Longrightarrow> patent_duplicate b c \<Longrightarrow> patent_duplicate a c"
  by (auto simp: patent_duplicate_def patent_same_tuple_def)

lemma delete_products_filter:
  "delete_products t = filter (\<lambda>r. \<not> (\<exists>r' \<in> set t. p_id r' < p_id r \<and> products_duplicate r r')) t"
  by (simp add: delete_products_def delete_join_filter delete_products_where_iff)

lemma delete_exclusivity_filter:
  "delete_exclusivity t = filter (\<lambda>r. \<not> (\<exists>r' \<in> set t. e_id r' < e_id r \<and> exclusivity_duplicate r r')) t"
  by (simp add: delete_exclusivity_def delete_join_filter delete_exclusivity_where_iff)

lemma delete_patent_filter:
  "delete_patent t = filter (\<lambda>r. \<not> (\<exists>r' \<in> set t. pt_id r' < pt_id r \<and> patent_duplicate r r')) t"
  by (simp add: delete_patent_def delete_join_filter delete_patent_where_iff)

lemma delete_products_survivor:
  assumes "distinct (map p_id t)" "r \<in> set t" "products_duplicate r r"
  shows "\<exists>s. s \<in> set (delete_products t) \<and> products_duplicate r s
           \<and> (\<forall>r' \<in> set t. products_duplicate r r' \<longrightarrow> p_id s \<le> p_id r')
           \<and> (\<forall>s'. s' \<in> set (delete_products t) \<and> products_duplicate r s' \<longrightarrow> s' = s)"
  unfolding delete_products_def
  by (rule delete_join_survivor [where cond = delete_products_where and ident = p_id
        and dup = products_duplicate and t = t and r = r])
     (use assms in \<open>auto simp: delete_products_where_iff intro: products_duplicate_sym products_duplicate_trans\<close>)

lemma delete_exclusivity_survivor:
  assumes "distinct (map e_id t)" "r \<in> set t" "exclusivity_duplicate r r"
  shows "\<exists>s. s \<in> set (delete_exclusivity t) \<and> exclusivity_duplicate r s
           \<and> (\<forall>r' \<in> set t. exclusivity_duplicate r r' \<longrightarrow> e_id s \<le> e_id r')
           \<and> (\<forall>s'. s' \<in> set (delete_exclusivity t) \<and> exclusivity_duplicate r s' \<longrightarrow> s' = s)"
  unfolding delete_exclusivity_def
  by (rule delete_join_survivor [where cond = delete_exclusivity_where and ident = e_id
        and dup = exclusivity_duplicate and t = t and r = r])
     (use assms in \<open>auto simp: delete_exclusivity_where_iff intro: exclusivity_duplicate_sym exclusivity_duplicate_trans\<close>)

lemma delete_patent_survivor:
  assumes "distinct (map pt_id t)" "r \<in> set t" "patent_duplicate r r"
  shows "\<exists>s. s \<in> set (delete_patent t) \<and> patent_duplicate r s
           \<and> (\<forall>r' \<in> set t. patent_duplicate r r' \<longrightarrow> pt_id s \<le> pt_id r')
           \<and> (\<forall>s'. s' \<in> set (delete_patent t) \<and> patent_duplicate r s' \<longrightarrow> s' = s)"
  unfolding delete_patent_def
  by (rule delete_join_survivor [where cond = delete_patent_where and ident = pt_id
        and dup = patent_duplicate and t = t and r = r])
     (use assms in \<open>auto simp: delete_patent_where_iff intro: patent_duplicate_sym patent_duplicate_trans\<close>)

text \<open>
  C1 (as amended). For each of the three approval-derived tables the deduplicator deletes
  exactly the rows for which an earlier-inserted row (lower id) exists with the same
  application number and the same ingredient, neither of them \<^verbatim>\<open>NULL\<close>, and with every
  other business column (for products the derived count too) equal or \<^verbatim>\<open>NULL\<close> on both
  sides; the rows kept stay in their order. So, ids being distinct, among the rows that
  are such duplicates of a row exactly one survives, the one of the lowest id, and a
  row with no earlier such partner is not deleted.
\<close>

theorem remove_duplicates_keeps_first:
  "delete_products tp
     = filter (\<lambda>r. \<not> (\<exists>r' \<in> set tp. p_id r' < p_id r \<and> products_duplicate r r')) tp
   \<and> delete_exclusivity te
     = filter (\<lambda>r. \<not> (\<exists>r' \<in> set te. e_id r' < e_id r \<and> exclusivity_duplicate r r')) te
   \<and> delete_patent tpt
     = filter (\<lambda>r. \<not> (\<exists>r' \<in> set tpt. pt_id r' < pt_id r \<and> patent_duplicate r r')) tpt
   \<and> (distinct (map p_id tp) \<and> rp \<in> set tp \<and> products_duplicate rp rp \<longrightarrow>
        (\<exists>s. s \<in> set (delete_products tp) \<and> products_duplicate rp s
           \<and> (\<forall>r' \<in> set tp. products_duplicate rp r' \<longrightarrow> p_id s \<le> p_id r')
           \<and> (\<forall>s'. s' \<in> set (delete_products tp) \<and> products_duplicate rp s' \<longrightarrow> s' = s)))
   \<and> (distinct (map e_id te) \<and> re \<in> set te \<and> exclusivity_duplicate re re \<longrightarrow>
        (\<exists>s. s \<in> set (delete_exclusivity te) \<and> exclusivity_duplicate re s
           \<and> (\<forall>r' \<in> set te. exclusivity_duplicate re r' \<longrightarrow> e_id s \<le> e_id r')
           \<and> (\<forall>s'. s' \<in> set (delete_exclusivity te) \<and> exclusivity_duplicate re s' \<longrightarrow> s' = s)))
   \<and> (distinct (map pt_id tpt) \<and> rpt \<in> set tpt \<and> patent_duplicate rpt rpt \<longrightarrow>
        (\<exists>s. s \<in> set (delete_patent tpt) \<and> patent_duplicate rpt s
           \<and> (\<forall>r' \<in> set tpt. patent_duplicate rpt r' \<longrightarrow> pt_id s \<le> pt_id r')
           \<and> (\<forall>s'. s' \<in> set (delete_patent tpt) \<and> patent_duplicate rpt s' \<longrightarrow> s' = s)))"
proof (intro conjI impI)
  show "delete_products tp
     = filter (\<lambda>r. \<not> (\<exists>r' \<in> set tp. p_id r' < p_id r \<and> products_duplicate r r')) tp"
    by (rule delete_products_filter)
  show "delete_exclusivity te
     = filter (\<lambda>r. \<not> (\<exists>r' \<in> set te. e_id r' < e_id r \<and> exclusivity_duplicate r r')) te"
    by (rule delete_exclusivity_filter)
  show "delete_patent tpt
     = filter (\<lambda>r. \<not> (\<exists>r' \<in> set tpt. pt_id r' < pt_id r \<and> patent_duplicate r r')) tpt"
    by (rule delete_patent_filter)
next
  assume "distinct (map p_id tp) \<and> rp \<in> set tp \<and> products_duplicate rp rp"
  then show "\<exists>s. s \<in> set (delete_products tp) \<and> products_duplicate rp s
           \<and> (\<forall>r' \<in> set tp. products_duplicate rp r' \<longrightarrow> p_id s \<le> p_id r')
           \<and> (\<forall>s'. s' \<in> set (delete_products tp) \<and> products_duplicate rp s' \<longrightarrow> s' = s)"
    using delete_products_survivor [of tp rp] by blast
next
  assume "distinct (map e_id te) \<and> re \<in> set te \<and> exclusivity_duplicate re re"
  then show "\<exists>s. s \<in> set (delete_exclusivity te) \<and> exclusivity_duplicate re s
           \<and> (\<forall>r' \<in> set te. exclusivity_duplicate re r' \<longrightarrow> e_id s \<le> e_id r')
           \<and> (\<forall>s'. s' \<in> set (delete_exclusivity te) \<and> exclusivity_duplicate re s' \<longrightarrow> s' = s)"
    using delete_exclusivity_survivor [of te re] by blast
next
  assume "distinct (map pt_id tpt) \<and> rpt \<in> set tpt \<and> patent_duplicate rpt rpt"
  then show "\<exists>s. s \<in> set (delete_patent tpt) \<and> patent_duplicate rpt s
           \<and> (\<forall>r' \<in> set tpt. patent_duplicate rpt r' \<longrightarrow> pt_id s \<le> pt_id r')
           \<and> (\<forall>s'. s' \<in> set (delete_patent tpt) \<and> patent_duplicate rpt s' \<longrightarrow> s' = s)"
    using delete_patent_survivor [of tpt rpt] by blast
qed

theorem remove_duplicates_keeps_first_witness:
  "delete_products dup_table
     = [product_row 1 aspirin_cols (Some 3),
        product_row 2 (aspirin_cols\<lparr>p_dosage := Some ''325MG''\<rparr>) (Some 1)]
   \<and> delete_exclusivity exclusivity_dup_table = [\<lparr>e_id = 1, e_cols = exclusivity_example_cols\<rparr>]
   \<and> delete_patent patent_dup_table = [\<lparr>pt_id = 1, pt_cols = patent_example_cols\<rparr>]
   \<and> distinct (map p_id dup_table) \<and> product_row 3 aspirin_cols (Some 3) \<in> set dup_table
   \<and> products_duplicate (product_row 3 aspirin_cols (Some 3)) (product_row 3 aspirin_cols (Some 3))
   \<and> distinct (map e_id exclusivity_dup_table)
   \<and> \<lparr>e_id = 2, e_cols = exclusivity_example_cols\<rparr> \<in> set exclusivity_dup_table
   \<and> exclusivity_duplicate \<lparr>e_id = 2, e_cols = exclusivity_example_cols\<rparr>
        \<lparr>e_id = 2, e_cols = exclusivity_example_cols\<rparr>
   \<and> distinct (map pt_id patent_dup_table)
   \<and> \<lparr>pt_id = 2, pt_cols = patent_example_cols\<rparr> \<in> set patent_dup_table
   \<and> patent_duplicate \<lparr>pt_id = 2, pt_cols = patent_example_cols\<rparr>
        \<lparr>pt_id = 2, pt_cols = patent_example_cols\<rparr>
   \<and> (\<exists>s. s \<in> set (delete_products dup_table)
          \<and> products_duplicate (product_row 3 aspirin_cols (Some 3)) s)
   \<and> (\<exists>s. s \<in> set (delete_exclusivity exclusivity_dup_table)
          \<and> exclusivity_duplicate \<lparr>e_id = 2, e_cols = exclusivity_example_cols\<rparr> s)
   \<and> (\<exists>s. s \<in> set (delete_patent patent_dup_table)
          \<and> patent_duplicate \<lparr>pt_id = 2, pt_cols = patent_example_cols\<rparr> s)"
proof -
  note inst = remove_duplicates_keeps_first [of dup_table exclusivity_dup_table patent_dup_table
      "product_row 3 aspirin_cols (Some 3)" "\<lparr>e_id = 2, e_cols = exclusivity_example_cols\<rparr>"
      "\<lparr>pt_id = 2, pt_cols = patent_example_cols\<rparr>"]
  have hp: "distinct (map p_id dup_table) \<and> product_row 3 aspirin_cols (Some 3) \<in> set dup_table
      \<and> products_duplicate (product_row 3 aspirin_cols (Some 3)) (product_row 3 aspirin_cols (Some 3))"
    by (simp add: dup_table_def product_row_def products_duplicate_def products_same_tuple_def
        aspirin_cols_def)
  have he: "distinct (map e_id exclusivity_dup_table)
      \<and> \<lparr>e_id = 2, e_cols = exclusivity_example_cols\<rparr> \<in> set exclusivity_dup_table
      \<and> exclusivity_duplicate \<lparr>e_id = 2, e_cols = exclusivity_example_cols\<rparr>
          \<lparr>e_id = 2, e_cols = exclusivity_example_cols\<rparr>"
    by (simp add: exclusivity_dup_table_def exclusivity_duplicate_def exclusivity_same_tuple_def
        exclusivity_example_cols_def)
  have hpt: "distinct (map pt_id patent_dup_table)
      \<and> \<lparr>pt_id = 2, pt_cols = patent_example_cols\<rparr> \<in> set patent_dup_table
      \<and> patent_duplicate \<lparr>pt_id = 2, pt_cols = patent_example_cols\<rparr>
          \<lparr>pt_id = 2, pt_cols = patent_example_cols\<rparr>"
    by (simp add: patent_dup_table_def patent_duplicate_def patent_same_tuple_def
        patent_example_cols_def)
  have dp: "delete_products dup_table
     = [product_row 1 aspirin_cols (Some 3),
        product_row 2 (aspirin_cols\<lparr>p_dosage := Some ''325MG''\<rparr>) (Some 1)]"
    using inst
    by (simp add: dup_table_def product_row_def products_duplicate_def products_same_tuple_def
        aspirin_cols_def)
  have de: "delete_exclusivity exclusivity_dup_table = [\<lparr>e_id = 1, e_cols = exclusivity_example_cols\<rparr>]"
    using inst
    by (simp add: exclusivity_dup_table_def exclusivity_duplicate_def exclusivity_same_tuple_def
        exclusivity_example_cols_def)
  have dpt: "delete_patent patent_dup_table = [\<lparr>pt_id = 1, pt_cols = patent_example_cols\<rparr>]"
    using inst
    by (simp add: patent_dup_table_def patent_duplicate_def patent_same_tuple_def
        patent_example_cols_def)
  from inst hp he hpt dp de dpt show ?thesis
    by blast
qed

text \<open>
  C1 as stated fails where the application number is \<^verbatim>\<open>NULL\<close>: two products rows with
  the same business tuple, null-safe equal in every column, are both kept, since
  \<^verbatim>\<open>p1.appl_no = p2.appl_no\<close> is not true of two \<^verbatim>\<open>NULL\<close>s.
\<close>

theorem remove_duplicates_null_key_counterexample:
  "\<not> (\<forall>t. delete_products t
        = filter (\<lambda>r. \<not> (\<exists>r' \<in> set t. p_id r' < p_id r \<and> products_same_tuple r r')) t)"
proof
  assume "\<forall>t. delete_products t
        = filter (\<lambda>r. \<not> (\<exists>r' \<in> set t. p_id r' < p_id r \<and> products_same_tuple r r')) t"
  then have "delete_products null_key_table
        = filter (\<lambda>r. \<not> (\<exists>r' \<in> set null_key_table. p_id r' < p_id r \<and> products_same_tuple r r'))
            null_key_table"
    by (rule spec)
  then show False
    by (simp add: delete_products_filter null_key_table_def product_row_def products_duplicate_def
        products_same_tuple_def aspirin_cols_def)
qed

lemma delete_products_pair:
  assumes "\<not> products_same_tuple p1 p2"
  shows "delete_products [p1, p2] = [p1, p2]"
proof -
  have "\<not> products_same_tuple p2 p1"
    using assms by (auto simp: products_same_tuple_def)
  with assms show ?thesis
    by (simp add: delete_products_filter products_duplicate_def)
qed

lemma delete_exclusivity_pair:
  assumes "\<not> exclusivity_same_tuple e1 e2"
  shows "delete_exclusivity [e1, e2] = [e1, e2]"
proof -
  have "\<not> exclusivity_same_tuple e2 e1"
    using assms by (auto simp: exclusivity_same_tuple_def)
  with assms show ?thesis
    by (simp add: delete_exclusivity_filter exclusivity_duplicate_def)
qed

lemma delete_patent_pair:
  assumes "\<not> patent_same_tuple e1 e2"
  shows "delete_patent [e1, e2] = [e1, e2]"
proof -
  have "\<not> patent_same_tuple e2 e1"
    using assms by (auto simp: patent_same_tuple_def)
  with assms show ?thesis
    by (simp add: delete_patent_filter patent_duplicate_def)
qed

text \<open>
  C2 (as amended). Two rows of an approval-derived table of which one has \<^verbatim>\<open>NULL\<close> in a
  business column (any function \<open>f\<close> of the business tuple, in particular any of its
  columns; for products also the derived count) where the other has a value are not
  duplicates for the deduplicator: the \<^verbatim>\<open>WHERE\<close> clause is true of them in neither
  direction, and a table of just these two rows keeps both, in either order.
\<close>

theorem null_against_value_not_duplicate:
  fixes fp :: "product_cols \<Rightarrow> 'a option"
    and fe :: "exclusivity_cols \<Rightarrow> 'b option"
    and fpt :: "patent_cols \<Rightarrow> 'c option"
  shows "(fp (p_cols p1) = None \<and> fp (p_cols p2) \<noteq> None \<longrightarrow>
            \<not> sql_true (delete_products_where p1 p2) \<and> \<not> sql_true (delete_products_where p2 p1)
            \<and> delete_products [p1, p2] = [p1, p2] \<and> delete_products [p2, p1] = [p2, p1])
     \<and> (p_number_of_approvals p1 = None \<and> p_number_of_approvals p2 \<noteq> None \<longrightarrow>
            \<not> sql_true (delete_products_where p1 p2) \<and> \<not> sql_true (delete_products_where p2 p1)
            \<and> delete_products [p1, p2] = [p1, p2] \<and> delete_products [p2, p1] = [p2, p1])
     \<and> (fe (e_cols e1) = None \<and> fe (e_cols e2) \<noteq> None \<longrightarrow>
            \<not> sql_true (delete_exclusivity_where e1 e2) \<and> \<not> sql_true (delete_exclusivity_where e2 e1)
            \<and> delete_exclusivity [e1, e2] = [e1, e2] \<and> delete_exclusivity [e2, e1] = [e2, e1])
     \<and> (fpt (pt_cols pt1) = None \<and> fpt (pt_cols pt2) \<noteq> None \<longrightarrow>
            \<not> sql_true (delete_patent_where pt1 pt2) \<and> \<not> sql_true (delete_patent_where pt2 pt1)
            \<and> delete_patent [pt1, pt2] = [pt1, pt2] \<and> delete_patent [pt2, pt1] = [pt2, pt1])"
proof (intro conjI impI)
  assume a: "fp (p_cols p1) = None \<and> fp (p_cols p2) \<noteq> None"
  then have "p_cols p1 \<noteq> p_cols p2" by auto
  then have n: "\<not> products_same_tuple p1 p2" "\<not> products_same_tuple p2 p1"
    by (auto simp: products_same_tuple_def)
  show "\<not> sql_true (delete_products_where p1 p2)" "\<not> sql_true (delete_products_where p2 p1)"
    using n by (simp_all add: delete_products_where_iff products_duplicate_def)
  show "delete_products [p1, p2] = [p1, p2]" "delete_products [p2, p1] = [p2, p1]"
    using n by (simp_all add: delete_products_pair)
next
  assume a: "p_number_of_approvals p1 = None \<and> p_number_of_approvals p2 \<noteq> None"
  then have n: "\<not> products_same_tuple p1 p2" "\<not> products_same_tuple p2 p1"
    by (auto simp: products_same_tuple_def)
  show "\<not> sql_true (delete_products_where p1 p2)" "\<not> sql_true (delete_products_where p2 p1)"
    using n by (simp_all add: delete_products_where_iff products_duplicate_def)
  show "delete_products [p1, p2] = [p1, p2]" "delete_products [p2, p1] = [p2, p1]"
    using n by (simp_all add: delete_products_pair)
next
  assume a: "fe (e_cols e1) = None \<and> fe (e_cols e2) \<noteq> None"
  then have "e_cols e1 \<noteq> e_cols e2" by auto
  then have n: "\<not> exclusivity_same_tuple e1 e2" "\<not> exclusivity_same_tuple e2 e1"
    by (auto simp: exclusivity_same_tuple_def)
  show "\<not> sql_true (delete_exclusivity_where e1 e2)" "\<not> sql_true (delete_exclusivity_where e2 e1)"
    using n by (simp_all add: delete_exclusivity_where_iff exclusivity_duplicate_def)
  show "delete_exclusivity [e1, e2] = [e1, e2]" "delete_exclusivity [e2, e1] = [e2, e1]"
    using n by (simp_all add: delete_exclusivity_pair)
next
  assume a: "fpt (pt_cols pt1) = None \<and> fpt (pt_cols pt2) \<noteq> None"
  then have "pt_cols pt1 \<noteq> pt_cols pt2" by auto
  then have n: "\<not> patent_same_tuple pt1 pt2" "\<not> patent_same_tuple pt2 pt1"
    by (auto simp: patent_same_tuple_def)
  show "\<not> sql_true (delete_patent_where pt1 pt2)" "\<not> sql_true (delete_patent_where pt2 pt1)"
    using n by (simp_all add: delete_patent_where_iff patent_duplicate_def)
  show "delete_patent [pt1, pt2] = [pt1, pt2]" "delete_patent [pt2, pt1] = [pt2, pt1]"
    using n by (simp_all add: delete_patent_pair)
qed

text \<open>
  The theorem at two products rows that differ only in \<^verbatim>\<open>te_code\<close>, two that differ only
  in the derived count, two exclusivity rows that differ only in the exclusivity code and
  two patent rows that differ only in the use code, each time \<^verbatim>\<open>NULL\<close> against a value.
\<close>

theorem null_against_value_not_duplicate_witness:
  "p_te_code (p_cols (product_row 1 aspirin_cols (Some 3))) = None
   \<and> p_te_code (p_cols (product_row 2 (aspirin_cols\<lparr>p_te_code := Some ''AB''\<rparr>) (Some 3))) \<noteq> None
   \<and> p_number_of_approvals (product_row 1 aspirin_cols None) = None
   \<and> p_number_of_approvals (product_row 2 aspirin_cols (Some 3)) \<noteq> None
   \<and> e_exclusivity_code (e_cols \<lparr>e_id = 1, e_cols = exclusivity_example_cols\<rparr>) = None
   \<and> e_exclusivity_code (e_cols \<lparr>e_id = 2,
        e_cols = exclusivity_example_cols\<lparr>e_exclusivity_code := Some ''NCE''\<rparr>\<rparr>) \<noteq> None
   \<and> pt_patent_use_code (pt_cols \<lparr>pt_id = 1, pt_cols = patent_example_cols\<rparr>) = None
   \<and> pt_patent_use_code (pt_cols \<lparr>pt_id = 2,
        pt_cols = patent_example_cols\<lparr>pt_patent_use_code := Some ''U-1''\<rparr>\<rparr>) \<noteq> None
   \<and> delete_products te_code_table = te_code_table
   \<and> delete_products [product_row 1 aspirin_cols None, product_row 2 aspirin_cols (Some 3)]
       = [product_row 1 aspirin_cols None, product_row 2 aspirin_cols (Some 3)]
   \<and> delete_exclusivity [\<lparr>e_id = 1, e_cols = exclusivity_example_cols\<rparr>,
        \<lparr>e_id = 2, e_cols = exclusivity_example_cols\<lparr>e_exclusivity_code := Some ''NCE''\<rparr>\<rparr>]
       = [\<lparr>e_id = 1, e_cols = exclusivity_example_cols\<rparr>,
          \<lparr>e_id = 2, e_cols = exclusivity_example_cols\<lparr>e_exclusivity_code := Some ''NCE''\<rparr>\<rparr>]
   \<and> delete_patent [\<lparr>pt_id = 1, pt_cols = patent_example_cols\<rparr>,
        \<lparr>pt_id = 2, pt_cols = patent_example_cols\<lparr>pt_patent_use_code := Some ''U-1''\<rparr>\<rparr>]
       = [\<lparr>pt_id = 1, pt_cols = patent_example_cols\<rparr>,
          \<lparr>pt_id = 2, pt_cols = patent_example_cols\<lparr>pt_patent_use_code := Some ''U-1''\<rparr>\<rparr>]"
proof -
  have h1: "p_te_code (p_cols (product_row 1 aspirin_cols (Some 3))) = None
     \<and> p_te_code (p_cols (product_row 2 (aspirin_cols\<lparr>p_te_code := Some ''AB''\<rparr>) (Some 3))) \<noteq> None"
    by (simp add: product_row_def aspirin_cols_def)
  have h2: "p_number_of_approvals (product_row 1 aspirin_cols None) = None
     \<and> p_number_of_approvals (product_row 2 aspirin_cols (Some 3)) \<noteq> None"
    by (simp add: product_row_def)
  have h3: "e_exclusivity_code (e_cols \<lparr>e_id = 1, e_cols = exclusivity_example_cols\<rparr>) = None
     \<and> e_exclusivity_code (e_cols \<lparr>e_id = 2,
          e_cols = exclusivity_example_cols\<lparr>e_exclusivity_code := Some ''NCE''\<rparr>\<rparr>) \<noteq> None"
    by (simp add: exclusivity_example_cols_def)
  have h4: "pt_patent_use_code (pt_cols \<lparr>pt_id = 1, pt_cols = patent_example_cols\<rparr>) = None
     \<and> pt_patent_use_code (pt_cols \<lparr>pt_id = 2,
          pt_cols = patent_example_cols\<lparr>pt_patent_use_code := Some ''U-1''\<rparr>\<rparr>) \<noteq> None"
    by (simp add: patent_example_cols_def)
  note a = null_against_value_not_duplicate [where fp = p_te_code and fe = e_exclusivity_code
      and fpt = pt_patent_use_code
      and ?p1.0 = "product_row 1 aspirin_cols (Some 3)"
      and ?p2.0 = "product_row 2 (aspirin_cols\<lparr>p_te_code := Some ''AB''\<rparr>) (Some 3)"
      and ?e1.0 = "\<lparr>e_id = 1, e_cols = exclusivity_example_cols\<rparr>"
      and ?e2.0 = "\<lparr>e_id = 2, e_cols = exclusivity_example_cols\<lparr>e_exclusivity_code := Some ''NCE''\<rparr>\<rparr>"
      and ?pt1.0 = "\<lparr>pt_id = 1, pt_cols = patent_example_cols\<rparr>"
      and ?pt2.0 = "\<lparr>pt_id = 2, pt_cols = patent_example_cols\<lparr>pt_patent_use_code := Some ''U-1''\<rparr>\<rparr>"]
  note b = null_against_value_not_duplicate [where fp = p_te_code and fe = e_exclusivity_code
      and fpt = pt_patent_use_code
      and ?p1.0 = "product_row 1 aspirin_cols None"
      and ?p2.0 = "product_row 2 aspirin_cols (Some 3)"
      and ?e1.0 = "\<lparr>e_id = 1, e_cols = exclusivity_example_cols\<rparr>"
      and ?e2.0 = "\<lparr>e_id = 2, e_cols = exclusivity_example_cols\<lparr>e_exclusivity_code := Some ''NCE''\<rparr>\<rparr>"
      and ?pt1.0 = "\<lparr>pt_id = 1, pt_cols = patent_example_cols\<rparr>"
      and ?pt2.0 = "\<lparr>pt_id = 2, pt_cols = patent_example_cols\<lparr>pt_patent_use_code := Some ''U-1''\<rparr>\<rparr>"]
  have t: "te_code_table = [product_row 1 aspirin_cols (Some 3),
      product_row 2 (aspirin_cols\<lparr>p_te_code := Some ''AB''\<rparr>) (Some 3)]"
    by (simp add: te_code_table_def)
  from a b h1 h2 h3 h4 show ?thesis
    unfolding t by blast
qed

text \<open>
  C2 as stated fails: the two rows of \<open>te_code_table\<close> agree on every business column
  but \<^verbatim>\<open>te_code\<close>, which is \<^verbatim>\<open>NULL\<close> in the first and \<^verbatim>\<open>AB\<close> in the second, and the
  deduplicator keeps both rows.
\<close>

theorem null_against_value_counterexample:
  "p_id (te_code_table ! 0) < p_id (te_code_table ! 1)
   \<and> p_number_of_approvals (te_code_table ! 0) = p_number_of_approvals (te_code_table ! 1)
   \<and> p_cols (te_code_table ! 1) = (p_cols (te_code_table ! 0))\<lparr>p_te_code := Some ''AB''\<rparr>
   \<and> p_te_code (p_cols (te_code_table ! 0)) = None
   \<and> length te_code_table = 2
   \<and> delete_products te_code_table = te_code_table
   \<and> length (delete_products te_code_table) \<noteq> 1"
proof -
  have n: "\<not> products_same_tuple (product_row 1 aspirin_cols (Some 3))
        (product_row 2 (aspirin_cols\<lparr>p_te_code := Some ''AB''\<rparr>) (Some 3))"
    by (simp add: products_same_tuple_def product_row_def aspirin_cols_def)
  have d: "delete_products te_code_table = te_code_table"
    unfolding te_code_table_def by (rule delete_products_pair [OF n])
  have l: "length te_code_table = 2"
    by (simp add: te_code_table_def)
  show ?thesis
    unfolding d l by (simp add: te_code_table_def product_row_def aspirin_cols_def)
qed

section \<open>Properties of the loaders\<close>

declare batches_of.simps [simp del]

lemma batches_of_Nil: "batches_of n [] = []"
  by (simp add: batches_of.simps)

lemma batches_of_step:
  "0 < n \<Longrightarrow> xs \<noteq> [] \<Longrightarrow> batches_of n xs = take n xs # batches_of n (drop n xs)"
  by (subst batches_of.simps) simp

lemma batches_of_short:
  "0 < n \<Longrightarrow> xs \<noteq> [] \<Longrightarrow> length xs \<le> n \<Longrightarrow> batches_of n xs = [xs]"
  by (simp add: batches_of_step batches_of_Nil)

lemma batch_loop_batches_of:
  "0 < n \<Longrightarrow> length batch < n \<Longrightarrow>
   batch_loop f n rows batch commits = commits @ batches_of n (batch @ map f rows)"
proof (induction rows arbitrary: batch commits)
  case Nil
  then show ?case
    by (simp add: batches_of_Nil batches_of_short)
next
  case (Cons r rows)
  show ?case
  proof (cases "n \<le> length (batch @ [f r])")
    case True
    with Cons.prems have len: "length (batch @ [f r]) = n"
      by simp
    have "batches_of n ((batch @ [f r]) @ map f rows)
            = (batch @ [f r]) # batches_of n (map f rows)"
      using Cons.prems(1) len by (subst batches_of_step) (simp_all del: append_assoc)
    with True Cons.IH [of "[]" "commits @ [batch @ [f r]]"] Cons.prems(1) show ?thesis
      by simp
  next
    case False
    with Cons.IH [of "batch @ [f r]" commits] Cons.prems(1) show ?thesis
      by simp
  qed
qed

lemma concat_batches_of: "concat (batches_of n xs) = xs"
proof (induction n xs rule: batches_of.induct)
  case (1 n xs)
  then show ?case
    by (subst batches_of.simps) simp
qed

lemma batches_of_nonempty: "b \<in> set (batches_of n xs) \<Longrightarrow> b \<noteq> []"
proof (induction n xs rule: batches_of.induct)
  case (1 n xs)
  from "1.prems" show ?case
    by (subst (asm) batches_of.simps) (use "1.IH" in \<open>auto split: if_splits\<close>)
qed

lemma batches_of_2500:
  assumes "length xs = 2500"
  shows "map length (batches_of 1000 xs) = [1000, 1000, 500]"
proof -
  have 1: "batches_of 1000 xs = take 1000 xs # batches_of 1000 (drop 1000 xs)"
    using assms by (subst batches_of_step) auto
  have 2: "batches_of 1000 (drop 1000 xs)
            = take 1000 (drop 1000 xs) # batches_of 1000 (drop 1000 (drop 1000 xs))"
    using assms by (subst batches_of_step) auto
  have 3: "batches_of 1000 (drop 1000 (drop 1000 xs)) = [drop 1000 (drop 1000 xs)]"
    using assms by (subst batches_of_short) auto
  show ?thesis
    unfolding 1 2 3 using assms by simp
qed

lemma load_products_batches: "load_products df = batches_of 1000 (map products_tuple df)"
  by (simp add: load_products_def batch_loop_batches_of)

lemma load_patents_batches: "load_patents df = batches_of 1000 (map patent_tuple df)"
  by (simp add: load_patents_def batch_loop_batches_of)

lemma load_sales_batches:
  "load_sales ib fb lookup df = batches_of 1000 (map (sales_tuple ib fb lookup) df)"
  by (simp add: load_sales_def batch_loop_batches_of)

lemma batched_loaders_2500:
  assumes "length df = 2500"
  shows "map length (load_products df) = [1000, 1000, 500]"
    and "map length (load_patents df) = [1000, 1000, 500]"
    and "map length (load_sales ib fb lookup df) = [1000, 1000, 500]"
  using assms
  by (simp_all add: load_products_batches load_patents_batches load_sales_batches batches_of_2500)

lemma batched_loaders_no_empty_commit:
  "[] \<notin> set (load_products df)" "[] \<notin> set (load_patents df)"
  "[] \<notin> set (load_sales ib fb lookup df)"
  using batches_of_nonempty
  by (fastforce simp: load_products_batches load_patents_batches load_sales_batches)+

text \<open>
  C3. The loaders of products, patents and sales commit the batches of the spec
  (\<open>load_products_batches\<close>, \<open>load_patents_batches\<close>, \<open>load_sales_batches\<close>: runs of
  1000 rows and the remainder, never an empty batch, so 1000, 1000 and 500 rows for
  2500 source rows). \<^verbatim>\<open>load_exclusivity\<close> does not: for 2500 source rows it commits one
  batch of 2500 rows, which is not the spec's batching, and for an empty extract it
  sends an empty batch and commits.
\<close>

theorem load_exclusivity_single_commit:
  "map length (load_exclusivity (replicate 2500 r)) = [2500]
   \<and> load_exclusivity (replicate 2500 r) \<noteq> batches_of 1000 (map exclusivity_tuple (replicate 2500 r))
   \<and> load_exclusivity [] = [[]]"
proof -
  have "map length (batches_of 1000 (map exclusivity_tuple (replicate 2500 r))) = [1000, 1000, 500]"
    by (rule batches_of_2500) simp
  moreover have "map length (load_exclusivity (replicate 2500 r)) = [2500]"
    by (simp add: load_exclusivity_def)
  ultimately show ?thesis
    by (auto simp: load_exclusivity_def)
qed

section \<open>Properties of the cross-reference builder\<close>

lemma zero_pad_Some_nonempty: "zero_pad code n = Some s \<Longrightarrow> s \<noteq> []"
  by (auto simp: zero_pad_def Let_def zfill_nonempty split: if_splits)

lemma truthy_zero_pad: "truthy (zero_pad code n) \<longleftrightarrow> zero_pad code n \<noteq> None"
  by (cases "zero_pad code n") (auto dest: zero_pad_Some_nonempty)

lemma ndc_step_entry:
  "ndc_step lookup r =
     (case ndc_entry r of
        None \<Rightarrow> lookup
      | Some (k, a) \<Rightarrow> if lookup k = None \<or> lookup k = Some [] then lookup(k \<mapsto> a) else lookup)"
  by (auto simp: ndc_step_def ndc_entry_def Let_def ndc_labeler_def ndc_product_def truthy_zero_pad
      split: option.splits)

lemma ndc_entry_nonempty: "ndc_entry r = Some (k, a) \<Longrightarrow> a \<noteq> []"
  by (auto simp: ndc_entry_def split: option.splits if_splits)

lemma foldl_ndc_step:
  assumes "\<forall>k. lookup k \<noteq> Some []"
  shows "foldl ndc_step lookup df = map_of (List.map_filter ndc_entry df) ++ lookup"
  using assms
proof (induction df arbitrary: lookup)
  case Nil
  then show ?case by (simp add: map_filter_simps)
next
  case (Cons r df)
  show ?case
  proof (cases "ndc_entry r")
    case None
    then have "ndc_step lookup r = lookup"
      by (simp add: ndc_step_entry)
    with None Cons show ?thesis
      by (simp add: map_filter_simps)
  next
    case (Some e)
    obtain k a where e: "e = (k, a)" by (cases e)
    have a: "a \<noteq> []"
      using Some e by (auto dest: ndc_entry_nonempty)
    define lookup' where "lookup' = (if lookup k = None then lookup(k \<mapsto> a) else lookup)"
    have "lookup k \<noteq> Some []"
      using Cons.prems by blast
    then have step: "ndc_step lookup r = lookup'"
      using Some e by (simp add: ndc_step_entry lookup'_def)
    have inv: "\<forall>k. lookup' k \<noteq> Some []"
      using Cons.prems a by (auto simp: lookup'_def)
    have "foldl ndc_step lookup (r # df) = map_of (List.map_filter ndc_entry df) ++ lookup'"
      using Cons.IH [OF inv] step by simp
    also have "\<dots> = map_of (List.map_filter ndc_entry (r # df)) ++ lookup"
      using Some e by (auto simp: map_filter_simps lookup'_def map_add_def fun_eq_iff split: option.splits)
    finally show ?thesis .
  qed
qed

lemma build_ndc_lookup_map_of: "build_ndc_lookup df = map_of (List.map_filter ndc_entry df)"
  by (simp add: build_ndc_lookup_def foldl_ndc_step)

lemma map_filter_append: "List.map_filter f (xs @ ys) = List.map_filter f xs @ List.map_filter f ys"
  by (simp add: List.map_filter_def)

lemma map_of_map_filter_None:
  "(\<forall>x \<in> set xs. \<forall>b. f x \<noteq> Some (k, b)) \<Longrightarrow> map_of (List.map_filter f xs) k = None"
  by (induction xs) (auto simp: map_filter_simps split: option.splits)

lemma build_ndc_lookup_first:
  assumes "ndc_entry r = Some (k, a)" and "\<forall>x \<in> set xs. \<forall>b. ndc_entry x \<noteq> Some (k, b)"
  shows "build_ndc_lookup (xs @ r # ys) k = Some a"
  using assms map_of_map_filter_None [of xs ndc_entry k]
  by (simp add: build_ndc_lookup_map_of map_filter_append map_filter_simps map_add_def)

lemma build_ndc_lookup_none:
  "(\<forall>x \<in> set df. \<forall>b. ndc_entry x \<noteq> Some (k, b)) \<Longrightarrow> build_ndc_lookup df k = None"
  by (simp add: build_ndc_lookup_map_of map_of_map_filter_None)



lemma ndc_entry_None_iff:
  "ndc_entry r = None \<longleftrightarrow>
     ndc_labeler r = None \<or> ndc_product r = None
     \<or> py_strip (str (row_get r ''Application Number'' (Val []))) = []"
  by (auto simp: ndc_entry_def split: option.splits)


lemma ndc_row_entry:
  "ndc_entry (ndc_row ''123'' ''45'' '' N1 '') = Some ((''00123'', ''0045''), ''N1'')"
  "ndc_entry (ndc_row ''123'' ''45'' ''N2'') = Some ((''00123'', ''0045''), ''N2'')"
  "ndc_entry (ndc_row ''77'' ''45'' ''N3'') = Some ((''00077'', ''0045''), ''N3'')"
  "ndc_entry (ndc_row ''  '' ''45'' ''N4'') = None"
  "ndc_labeler (ndc_row ''  '' ''45'' ''N4'') = None"
  by (simp_all add: ndc_entry_def ndc_labeler_def ndc_product_def ndc_row_def row_get_def
      zero_pad_def py_strip_def py_isspace_def zfill_def numeral_2_eq_2 numeral_3_eq_3)


section \<open>Properties of the join keys and of the sales loader\<close>

lemma zero_pad_length: "zero_pad code n = Some s \<Longrightarrow> n \<le> length s"
  by (auto simp: zero_pad_def Let_def length_zfill split: if_splits)

lemma zero_pad_exact:
  "zero_pad code n = Some s \<Longrightarrow> length (py_strip (str code)) \<le> n \<Longrightarrow> length s = n"
  by (auto simp: zero_pad_def Let_def length_zfill split: if_splits)

lemma dom_build_ndc_lookup:
  assumes "k \<in> dom (build_ndc_lookup df)"
  shows "\<exists>r \<in> set df. \<exists>a. ndc_entry r = Some (k, a)"
proof (rule ccontr)
  assume "\<not> (\<exists>r \<in> set df. \<exists>a. ndc_entry r = Some (k, a))"
  then have "build_ndc_lookup df k = None"
    by (intro build_ndc_lookup_none) auto
  with assms show False by auto
qed

lemma ndc_entry_key:
  "ndc_entry r = Some ((l, p), a) \<Longrightarrow> ndc_labeler r = Some l \<and> ndc_product r = Some p"
  by (auto simp: ndc_entry_def split: option.splits if_splits)

lemma sales_appl_no_Some:
  "sales_appl_no lookup r = Some a \<Longrightarrow>
   \<exists>l p. ndc_labeler r = Some l \<and> ndc_product r = Some p \<and> lookup (l, p) = Some a"
  by (cases "ndc_labeler r"; cases "ndc_product r") (auto simp: sales_appl_no_def split: if_splits)

lemma sales_appl_no_None:
  "ndc_labeler r = None \<or> ndc_product r = None \<Longrightarrow> sales_appl_no lookup r = None"
  by (auto simp: sales_appl_no_def)


text \<open>
  C9 (as amended). Every code used as a join key has gone through \<^verbatim>\<open>zero_pad\<close>: a key of
  the cross-reference mapping is the pair of normalized codes of a row of the extract,
  its labeler code at least 5 and its product code at least 4 characters long; a sales
  row that gets an application number got it under the pair of its normalized codes, of
  the same lengths; a normalized code is the trimmed text zero-filled to its width, of
  exactly that width when the trimmed text is no longer than it; and a row with a code
  that normalizes to empty neither writes to the mapping nor gets an application number.
\<close>

theorem join_keys_zero_padded:
  "((l, p) \<in> dom (build_ndc_lookup df) \<longrightarrow>
      5 \<le> length l \<and> 4 \<le> length p
      \<and> (\<exists>r \<in> set df. ndc_labeler r = Some l \<and> ndc_product r = Some p))
   \<and> (sales_appl_no lookup r = Some a \<longrightarrow>
      (\<exists>l' p'. ndc_labeler r = Some l' \<and> ndc_product r = Some p' \<and> lookup (l', p') = Some a
         \<and> 5 \<le> length l' \<and> 4 \<le> length p'))
   \<and> (ndc_labeler r = Some l \<longrightarrow>
      l = zfill (py_strip (str (row_get r ''Labeler Code'' (Val [])))) 5 \<and> 5 \<le> length l
      \<and> (length (py_strip (str (row_get r ''Labeler Code'' (Val [])))) \<le> 5 \<longrightarrow> length l = 5))
   \<and> (ndc_product r = Some p \<longrightarrow>
      p = zfill (py_strip (str (row_get r ''Product Code'' (Val [])))) 4 \<and> 4 \<le> length p
      \<and> (length (py_strip (str (row_get r ''Product Code'' (Val [])))) \<le> 4 \<longrightarrow> length p = 4))
   \<and> (ndc_labeler r = None \<or> ndc_product r = None \<longrightarrow>
      sales_appl_no lookup r = None \<and> ndc_step lookup r = lookup)"
proof (intro conjI impI)
  assume "(l, p) \<in> dom (build_ndc_lookup df)"
  then obtain r a where r: "r \<in> set df" "ndc_entry r = Some ((l, p), a)"
    using dom_build_ndc_lookup by blast
  then have k: "ndc_labeler r = Some l \<and> ndc_product r = Some p"
    by (simp add: ndc_entry_key)
  then show "5 \<le> length l" "4 \<le> length p"
    by (auto simp: ndc_labeler_def ndc_product_def dest: zero_pad_length)
  show "\<exists>r \<in> set df. ndc_labeler r = Some l \<and> ndc_product r = Some p"
    using r(1) k by blast
next
  assume "sales_appl_no lookup r = Some a"
  then obtain l' p' where k: "ndc_labeler r = Some l'" "ndc_product r = Some p'"
      "lookup (l', p') = Some a"
    using sales_appl_no_Some by blast
  then have "5 \<le> length l'" "4 \<le> length p'"
    by (auto simp: ndc_labeler_def ndc_product_def dest: zero_pad_length)
  with k show "\<exists>l' p'. ndc_labeler r = Some l' \<and> ndc_product r = Some p' \<and> lookup (l', p') = Some a
         \<and> 5 \<le> length l' \<and> 4 \<le> length p'"
    by blast
next
  assume a: "ndc_labeler r = Some l"
  then show "l = zfill (py_strip (str (row_get r ''Labeler Code'' (Val [])))) 5"
    by (auto simp: ndc_labeler_def zero_pad_def Let_def split: if_splits)
  show "5 \<le> length l"
    using a by (auto simp: ndc_labeler_def dest: zero_pad_length)
  assume "length (py_strip (str (row_get r ''Labeler Code'' (Val [])))) \<le> 5"
  with a show "length l = 5"
    by (auto simp: ndc_labeler_def dest: zero_pad_exact)
next
  assume a: "ndc_product r = Some p"
  then show "p = zfill (py_strip (str (row_get r ''Product Code'' (Val [])))) 4"
    by (auto simp: ndc_product_def zero_pad_def Let_def split: if_splits)
  show "4 \<le> length p"
    using a by (auto simp: ndc_product_def dest: zero_pad_length)
  assume "length (py_strip (str (row_get r ''Product Code'' (Val [])))) \<le> 4"
  with a show "length p = 4"
    by (auto simp: ndc_product_def dest: zero_pad_exact)
next
  assume a: "ndc_labeler r = None \<or> ndc_product r = None"
  then show "sales_appl_no lookup r = None"
    by (rule sales_appl_no_None)
  from a have "ndc_entry r = None"
    unfolding ndc_entry_None_iff by blast
  then show "ndc_step lookup r = lookup"
    by (simp add: ndc_step_entry)
qed


lemma long_code_row:
  "ndc_labeler (ndc_row ''123456'' ''12'' ''N1'') = Some ''123456''"
  "ndc_product (ndc_row ''123456'' ''12'' ''N1'') = Some ''0012''"
  "ndc_entry (ndc_row ''123456'' ''12'' ''N1'') = Some ((''123456'', ''0012''), ''N1'')"
  "py_strip ''123456'' = ''123456''" "py_strip ''12'' = ''12''"
  by (simp_all add: ndc_entry_def ndc_labeler_def ndc_product_def ndc_row_def row_get_def
      zero_pad_def py_strip_def py_isspace_def zfill_def numeral_2_eq_2)

lemma long_code_lookup:
  "build_ndc_lookup [ndc_row ''123456'' ''12'' ''N1''] (''123456'', ''0012'') = Some ''N1''"
  using build_ndc_lookup_first [of "ndc_row ''123456'' ''12'' ''N1''" "(''123456'', ''0012'')" "''N1''" "[]" "[]"]
  by (simp add: long_code_row)

text \<open>
  The theorem at a row with the six-character labeler code 123456 and the product code
  12, and at a row with a blank labeler code.
\<close>

theorem join_keys_zero_padded_witness:
  "(''123456'', ''0012'') \<in> dom (build_ndc_lookup [ndc_row ''123456'' ''12'' ''N1''])
   \<and> 5 \<le> length ''123456'' \<and> 4 \<le> length ''0012''
   \<and> sales_appl_no (build_ndc_lookup [ndc_row ''123456'' ''12'' ''N1'']) (ndc_row ''123456'' ''12'' ''N1'')
       = Some ''N1''
   \<and> ndc_labeler (ndc_row ''123456'' ''12'' ''N1'') = Some ''123456''
   \<and> ndc_product (ndc_row ''123456'' ''12'' ''N1'') = Some ''0012''
   \<and> length (py_strip (str (row_get (ndc_row ''123456'' ''12'' ''N1'') ''Product Code'' (Val [])))) \<le> 4
   \<and> length ''0012'' = 4
   \<and> ndc_labeler (ndc_row ''  '' ''45'' ''N4'') = None
   \<and> sales_appl_no (build_ndc_lookup [ndc_row ''123456'' ''12'' ''N1'']) (ndc_row ''  '' ''45'' ''N4'') = None
   \<and> ndc_step (build_ndc_lookup [ndc_row ''123456'' ''12'' ''N1'']) (ndc_row ''  '' ''45'' ''N4'')
       = build_ndc_lookup [ndc_row ''123456'' ''12'' ''N1'']"
proof -
  note a = join_keys_zero_padded [where l = "''123456''" and p = "''0012''"
      and df = "[ndc_row ''123456'' ''12'' ''N1'']"
      and lookup = "build_ndc_lookup [ndc_row ''123456'' ''12'' ''N1'']"
      and r = "ndc_row ''123456'' ''12'' ''N1''" and a = "''N1''"]
  note b = join_keys_zero_padded [where l = "''123456''" and p = "''0012''"
      and df = "[ndc_row ''123456'' ''12'' ''N1'']"
      and lookup = "build_ndc_lookup [ndc_row ''123456'' ''12'' ''N1'']"
      and r = "ndc_row ''  '' ''45'' ''N4''" and a = "''N1''"]
  have d: "(''123456'', ''0012'') \<in> dom (build_ndc_lookup [ndc_row ''123456'' ''12'' ''N1''])"
    by (simp add: dom_def long_code_lookup)
  have s: "sales_appl_no (build_ndc_lookup [ndc_row ''123456'' ''12'' ''N1'']) (ndc_row ''123456'' ''12'' ''N1'')
       = Some ''N1''"
    by (simp add: sales_appl_no_def long_code_row long_code_lookup)
  have n: "ndc_labeler (ndc_row ''  '' ''45'' ''N4'') = None"
    by (simp add: ndc_row_entry)
  have w: "length (py_strip (str (row_get (ndc_row ''123456'' ''12'' ''N1'') ''Product Code'' (Val [])))) \<le> 4"
    by (simp add: ndc_row_def row_get_def long_code_row)
  have l: "5 \<le> length ''123456'' \<and> 4 \<le> length ''0012''"
    using a d by blast
  have x: "length ''0012'' = 4"
    using a long_code_row(2) w by blast
  have y: "sales_appl_no (build_ndc_lookup [ndc_row ''123456'' ''12'' ''N1'']) (ndc_row ''  '' ''45'' ''N4'') = None
      \<and> ndc_step (build_ndc_lookup [ndc_row ''123456'' ''12'' ''N1'']) (ndc_row ''  '' ''45'' ''N4'')
          = build_ndc_lookup [ndc_row ''123456'' ''12'' ''N1'']"
    using b n by blast
  from d s n w l x y long_code_row(1) long_code_row(2) show ?thesis
    by (intro conjI) (erule conjunct1 conjunct2 | assumption)+
qed

text \<open>
  C9 as stated fails on a labeler code longer than five characters: the row with
  labeler code 123456 puts the key (123456, 0012) into the mapping.
\<close>

theorem join_keys_width_counterexample:
  "\<not> (\<forall>df l p. (l, p) \<in> dom (build_ndc_lookup df) \<longrightarrow> length l = 5 \<and> length p = 4)"
proof
  assume "\<forall>df l p. (l, p) \<in> dom (build_ndc_lookup df) \<longrightarrow> length l = 5 \<and> length p = 4"
  then have "(''123456'', ''0012'') \<in> dom (build_ndc_lookup [ndc_row ''123456'' ''12'' ''N1''])
      \<longrightarrow> length ''123456'' = 5 \<and> length ''0012'' = 4"
    by blast
  then show False
    by (simp add: dom_def long_code_lookup)
qed

lemma map_s_cols_insert_sales: "map s_cols (insert_sales cs t) = map s_cols t @ cs"
  by (induction cs arbitrary: t) auto







section \<open>Properties of the aggregate populator\<close>

lemma set_map_filter: "set (List.map_filter f xs) = {a. \<exists>x \<in> set xs. f x = Some a}"
  by (induction xs) (auto simp: map_filter_simps split: option.splits)

lemma approvals_count:
  "length (remdups (List.map_filter (\<lambda>r. p_appl_no (p_cols r))
      (filter (\<lambda>r. p_ingredient (p_cols r) = i \<and> p_dosage (p_cols r) = d) t)))
   = approvals_in_group t i d"
proof -
  have "set (List.map_filter (\<lambda>r. p_appl_no (p_cols r))
      (filter (\<lambda>r. p_ingredient (p_cols r) = i \<and> p_dosage (p_cols r) = d) t))
    = {a. \<exists>r \<in> set t. p_ingredient (p_cols r) = i \<and> p_dosage (p_cols r) = d
                \<and> p_appl_no (p_cols r) = Some a}"
    by (auto simp: set_map_filter)
  then show ?thesis
    by (simp add: approvals_in_group_def length_remdups_card_conv)
qed

lemma find_group:
  "find (\<lambda>(i, d, n). i = a \<and> d = b) (map (\<lambda>(i, d). (i, d, c i d)) ks)
     = (if (a, b) \<in> set ks then Some (a, b, c a b) else None)"
  by (induction ks) auto

lemma join_condition:
  "sql_true (sql_and (sql_eq x i) (sql_eq y d)) \<longleftrightarrow> x \<noteq> None \<and> y \<noteq> None \<and> i = x \<and> d = y"
  by (auto simp: sql_true_sql_and sql_true_sql_eq)

lemma find_join_null:
  assumes "x = None \<or> y = None"
  shows "find (\<lambda>(i, d, n). sql_true (sql_and (sql_eq x i) (sql_eq y d))) gs = None"
  using assms by (auto simp: find_None_iff join_condition)

lemma find_join_value:
  assumes "x \<noteq> None" "y \<noteq> None"
  shows "find (\<lambda>(i, d, n). sql_true (sql_and (sql_eq x i) (sql_eq y d)))
            (map (\<lambda>(i, d). (i, d, c i d)) ks)
         = (if (x, y) \<in> set ks then Some (x, y, c x y) else None)"
  using assms by (induction ks) (auto simp: join_condition)

lemma populate_row:
  assumes "p \<in> set t"
  shows "(case find (\<lambda>(i, d, n).
                      sql_true (sql_and (sql_eq (p_ingredient (p_cols p)) i)
                                        (sql_eq (p_dosage (p_cols p)) d)))
                    (approvals_subquery t) of
                 None \<Rightarrow> p
               | Some (i, d, n) \<Rightarrow> p\<lparr>p_number_of_approvals := Some n\<rparr>)
         = (if p_ingredient (p_cols p) = None \<or> p_dosage (p_cols p) = None then p
            else p\<lparr>p_number_of_approvals :=
                     Some (approvals_in_group t (p_ingredient (p_cols p)) (p_dosage (p_cols p)))\<rparr>)"
proof (cases "p_ingredient (p_cols p) = None \<or> p_dosage (p_cols p) = None")
  case True
  then show ?thesis
    by (simp add: find_join_null)
next
  case False
  have key: "(p_ingredient (p_cols p), p_dosage (p_cols p))
      \<in> set (remdups (map (\<lambda>r. (p_ingredient (p_cols r), p_dosage (p_cols r))) t))"
    using assms by auto
  have sub: "approvals_subquery t
      = map (\<lambda>(i, d). (i, d, approvals_in_group t i d))
          (remdups (map (\<lambda>r. (p_ingredient (p_cols r), p_dosage (p_cols r))) t))"
    by (simp add: approvals_subquery_def approvals_count)
  show ?thesis
    using False key unfolding sub by (auto simp: find_join_value)
qed

lemma populate_approvals_map:
  "populate_number_of_product_approvals t
     = map (\<lambda>p. if p_ingredient (p_cols p) = None \<or> p_dosage (p_cols p) = None then p
                 else p\<lparr>p_number_of_approvals :=
                          Some (approvals_in_group t (p_ingredient (p_cols p)) (p_dosage (p_cols p)))\<rparr>)
           t"
  unfolding populate_number_of_product_approvals_def
  by (rule map_cong [OF refl]) (rule populate_row)

text \<open>
  C7 (as amended). The approval-count pass sets the derived count of every products row
  whose ingredient and dosage are both not \<^verbatim>\<open>NULL\<close> to the number of distinct application
  numbers among the rows of the table with the same ingredient and dosage, and leaves a
  row whose ingredient or dosage is \<^verbatim>\<open>NULL\<close> as it was; no other column changes.
\<close>

theorem approval_count_per_group:
  "populate_number_of_product_approvals t
     = map (\<lambda>p. if p_ingredient (p_cols p) = None \<or> p_dosage (p_cols p) = None then p
                 else p\<lparr>p_number_of_approvals :=
                          Some (approvals_in_group t (p_ingredient (p_cols p)) (p_dosage (p_cols p)))\<rparr>)
           t"
  by (rule populate_approvals_map)


lemma aspirin_groups:
  "approvals_in_group aspirin_table (Some ''ASPIRIN'') (Some ''81MG'') = 3"
  "approvals_in_group aspirin_table (Some ''ASPIRIN'') (Some ''325MG'') = 1"
proof -
  have "{a. \<exists>r \<in> set aspirin_table. p_ingredient (p_cols r) = Some ''ASPIRIN''
            \<and> p_dosage (p_cols r) = Some ''81MG'' \<and> p_appl_no (p_cols r) = Some a}
        = {''N001'', ''N002'', ''N003''}"
    by (auto simp: aspirin_table_def product_row_def aspirin_cols_def)
  then show "approvals_in_group aspirin_table (Some ''ASPIRIN'') (Some ''81MG'') = 3"
    by (simp add: approvals_in_group_def)
  have "{a. \<exists>r \<in> set aspirin_table. p_ingredient (p_cols r) = Some ''ASPIRIN''
            \<and> p_dosage (p_cols r) = Some ''325MG'' \<and> p_appl_no (p_cols r) = Some a}
        = {''N004''}"
    by (auto simp: aspirin_table_def product_row_def aspirin_cols_def)
  then show "approvals_in_group aspirin_table (Some ''ASPIRIN'') (Some ''325MG'') = 1"
    by (simp add: approvals_in_group_def)
qed

text \<open>
  The theorem on the example of the spec: three rows of ASPIRIN 81MG with the
  application numbers N001, N002 and N003 get the count 3, a fourth row of dosage 325MG
  gets the count 1 of its own group; and a row with a \<^verbatim>\<open>NULL\<close> dosage is left alone.
\<close>

theorem approval_count_per_group_witness:
  "map p_number_of_approvals (populate_number_of_product_approvals aspirin_table)
     = [Some 3, Some 3, Some 3, Some 1]
   \<and> map p_cols (populate_number_of_product_approvals aspirin_table) = map p_cols aspirin_table
   \<and> populate_number_of_product_approvals null_dosage_table = null_dosage_table"
proof -
  have 1: "map p_number_of_approvals (populate_number_of_product_approvals aspirin_table)
     = [Some (approvals_in_group aspirin_table (Some ''ASPIRIN'') (Some ''81MG'')),
        Some (approvals_in_group aspirin_table (Some ''ASPIRIN'') (Some ''81MG'')),
        Some (approvals_in_group aspirin_table (Some ''ASPIRIN'') (Some ''81MG'')),
        Some (approvals_in_group aspirin_table (Some ''ASPIRIN'') (Some ''325MG''))]"
    unfolding approval_count_per_group [of aspirin_table]
    by (simp add: aspirin_table_def product_row_def aspirin_cols_def)
  have 2: "map p_cols (populate_number_of_product_approvals aspirin_table) = map p_cols aspirin_table"
    unfolding approval_count_per_group [of aspirin_table] by (simp add: comp_def)
  have 3: "populate_number_of_product_approvals null_dosage_table = null_dosage_table"
    unfolding approval_count_per_group [of null_dosage_table]
    by (simp add: null_dosage_table_def product_row_def aspirin_cols_def)
  show ?thesis
    using 1 2 3 by (simp add: aspirin_groups)
qed

text \<open>
  C7 as stated fails on a row with a \<^verbatim>\<open>NULL\<close> dosage: the join condition
  \<^verbatim>\<open>p.dosage = s.dosage\<close> is not true of it, and its count stays \<^verbatim>\<open>NULL\<close> though its
  group holds one application number.
\<close>

theorem approval_count_null_group_counterexample:
  "\<not> (\<forall>t. \<forall>p \<in> set (populate_number_of_product_approvals t).
        p_number_of_approvals p
          = Some (approvals_in_group t (p_ingredient (p_cols p)) (p_dosage (p_cols p))))"
proof
  assume "\<forall>t. \<forall>p \<in> set (populate_number_of_product_approvals t).
        p_number_of_approvals p
          = Some (approvals_in_group t (p_ingredient (p_cols p)) (p_dosage (p_cols p)))"
  then have "\<forall>p \<in> set (populate_number_of_product_approvals null_dosage_table).
        p_number_of_approvals p
          = Some (approvals_in_group null_dosage_table (p_ingredient (p_cols p)) (p_dosage (p_cols p)))"
    by (rule spec)
  then show False
    unfolding populate_approvals_map [of null_dosage_table]
    by (simp add: null_dosage_table_def product_row_def aspirin_cols_def)
qed

section \<open>Properties of the pipeline\<close>

lemma insert_products_length: "length (insert_products cs t) = length t + length cs"
  by (induction cs arbitrary: t) auto

lemma insert_exclusivity_length: "length (insert_exclusivity cs t) = length t + length cs"
  by (induction cs arbitrary: t) auto

lemma insert_patent_length: "length (insert_patent cs t) = length t + length cs"
  by (induction cs arbitrary: t) auto

lemma commit_all_length:
  assumes "\<And>cs t. length (ins cs t) = length t + length cs"
  shows "length (commit_all ins bs t) = length t + length (concat bs)"
  unfolding commit_all_def
  by (induction bs arbitrary: t) (auto simp: assms)

lemma stage_products_length:
  "length (products (stage_products df db)) = length (products db) + length df"
  by (simp add: stage_products_def commit_all_length [of insert_products, OF insert_products_length]
      load_products_batches concat_batches_of)

lemma stage_exclusivity_length:
  "length (exclusivity (stage_exclusivity df db)) = length (exclusivity db) + length df"
  by (simp add: stage_exclusivity_def
      commit_all_length [of insert_exclusivity, OF insert_exclusivity_length] load_exclusivity_def)

lemma stage_patents_length:
  "length (patent (stage_patents df db)) = length (patent db) + length df"
  by (simp add: stage_patents_def commit_all_length [of insert_patent, OF insert_patent_length]
      load_patents_batches concat_batches_of)

lemma stage_frames:
  "exclusivity (stage_products df db) = exclusivity db"
  "patent (stage_products df db) = patent db"
  "sales (stage_products df db) = sales db"
  "products (stage_exclusivity df db) = products db"
  "patent (stage_exclusivity df db) = patent db"
  "sales (stage_exclusivity df db) = sales db"
  "products (stage_patents df db) = products db"
  "exclusivity (stage_patents df db) = exclusivity db"
  "sales (stage_patents df db) = sales db"
  by (simp_all add: stage_products_def stage_exclusivity_def stage_patents_def)

text \<open>
  C4 (as amended). A source-read failure is fatal and aborts the run at the stage that
  reads the extract: \<^verbatim>\<open>main\<close> ends with the exception of the read, the tables of that
  stage and of every later stage are as they were, and the rows the earlier stages
  committed stay. When the identifier extract or the products extract cannot be read,
  the store is unchanged.
\<close>

theorem read_failure_aborts_at_its_stage:
  "(ndc_csv x = Inl e \<longrightarrow> main ib fb x db = (db, Some e))
   \<and> (ndc_csv x = Inr ndc_df \<and> products_csv x = Inl e \<longrightarrow> main ib fb x db = (db, Some e))
   \<and> (ndc_csv x = Inr ndc_df \<and> products_csv x = Inr products_df \<and> exclusivity_csv x = Inl e \<longrightarrow>
        snd (main ib fb x db) = Some e
        \<and> fst (main ib fb x db) = stage_products products_df db
        \<and> length (products (fst (main ib fb x db))) = length (products db) + length products_df
        \<and> exclusivity (fst (main ib fb x db)) = exclusivity db
        \<and> patent (fst (main ib fb x db)) = patent db
        \<and> sales (fst (main ib fb x db)) = sales db)
   \<and> (ndc_csv x = Inr ndc_df \<and> products_csv x = Inr products_df
        \<and> exclusivity_csv x = Inr exclusivity_df \<and> patent_csv x = Inl e \<longrightarrow>
        snd (main ib fb x db) = Some e
        \<and> fst (main ib fb x db) = stage_exclusivity exclusivity_df (stage_products products_df db)
        \<and> length (products (fst (main ib fb x db))) = length (products db) + length products_df
        \<and> length (exclusivity (fst (main ib fb x db))) = length (exclusivity db) + length exclusivity_df
        \<and> patent (fst (main ib fb x db)) = patent db
        \<and> sales (fst (main ib fb x db)) = sales db)
   \<and> (ndc_csv x = Inr ndc_df \<and> products_csv x = Inr products_df
        \<and> exclusivity_csv x = Inr exclusivity_df \<and> patent_csv x = Inr patent_df
        \<and> sales_csv x = Inl e \<longrightarrow>
        snd (main ib fb x db) = Some e
        \<and> fst (main ib fb x db)
            = stage_patents patent_df (stage_exclusivity exclusivity_df (stage_products products_df db))
        \<and> length (products (fst (main ib fb x db))) = length (products db) + length products_df
        \<and> length (exclusivity (fst (main ib fb x db))) = length (exclusivity db) + length exclusivity_df
        \<and> length (patent (fst (main ib fb x db))) = length (patent db) + length patent_df
        \<and> sales (fst (main ib fb x db)) = sales db)"
  by (simp add: main_def stage_frames stage_products_length stage_exclusivity_length
      stage_patents_length)


text \<open>
  The theorem on five runs into an empty store, each with one of the five extracts
  unreadable and one row in every other extract.
\<close>

theorem read_failure_aborts_at_its_stage_witness:
  "main read_digits read_digits (readable_extracts\<lparr>ndc_csv := Inl UnicodeDecodeError\<rparr>) empty_store
     = (empty_store, Some UnicodeDecodeError)
   \<and> main read_digits read_digits (readable_extracts\<lparr>products_csv := Inl FileNotFoundError\<rparr>) empty_store
     = (empty_store, Some FileNotFoundError)
   \<and> snd (main read_digits read_digits exclusivity_unreadable empty_store) = Some FileNotFoundError
   \<and> length (products (fst (main read_digits read_digits exclusivity_unreadable empty_store))) = 1
   \<and> exclusivity (fst (main read_digits read_digits exclusivity_unreadable empty_store)) = []
   \<and> snd (main read_digits read_digits (readable_extracts\<lparr>patent_csv := Inl FileNotFoundError\<rparr>)
        empty_store) = Some FileNotFoundError
   \<and> length (exclusivity (fst (main read_digits read_digits
        (readable_extracts\<lparr>patent_csv := Inl FileNotFoundError\<rparr>) empty_store))) = 1
   \<and> patent (fst (main read_digits read_digits
        (readable_extracts\<lparr>patent_csv := Inl FileNotFoundError\<rparr>) empty_store)) = []
   \<and> snd (main read_digits read_digits (readable_extracts\<lparr>sales_csv := Inl UnicodeDecodeError\<rparr>)
        empty_store) = Some UnicodeDecodeError
   \<and> length (patent (fst (main read_digits read_digits
        (readable_extracts\<lparr>sales_csv := Inl UnicodeDecodeError\<rparr>) empty_store))) = 1
   \<and> sales (fst (main read_digits read_digits
        (readable_extracts\<lparr>sales_csv := Inl UnicodeDecodeError\<rparr>) empty_store)) = []"
proof -
  note t = read_failure_aborts_at_its_stage [where ib = read_digits and fb = read_digits
      and db = empty_store and ndc_df = "[ndc_row ''123'' ''45'' ''N001'']"
      and products_df = "[products_row ''N001'']" and exclusivity_df = "[products_row ''N001'']"
      and patent_df = "[products_row ''N001'']"]
  have 1: "main read_digits read_digits (readable_extracts\<lparr>ndc_csv := Inl UnicodeDecodeError\<rparr>) empty_store
     = (empty_store, Some UnicodeDecodeError)"
    using t [where x = "readable_extracts\<lparr>ndc_csv := Inl UnicodeDecodeError\<rparr>" and e = UnicodeDecodeError]
    by (simp add: readable_extracts_def)
  have 2: "main read_digits read_digits (readable_extracts\<lparr>products_csv := Inl FileNotFoundError\<rparr>) empty_store
     = (empty_store, Some FileNotFoundError)"
    using t [where x = "readable_extracts\<lparr>products_csv := Inl FileNotFoundError\<rparr>" and e = FileNotFoundError]
    by (simp add: readable_extracts_def)
  have 3: "snd (main read_digits read_digits exclusivity_unreadable empty_store) = Some FileNotFoundError
   \<and> length (products (fst (main read_digits read_digits exclusivity_unreadable empty_store))) = 1
   \<and> exclusivity (fst (main read_digits read_digits exclusivity_unreadable empty_store)) = []"
    using t [where x = exclusivity_unreadable and e = FileNotFoundError]
    by (simp add: exclusivity_unreadable_def readable_extracts_def empty_store_def
        stage_frames stage_products_length stage_exclusivity_length stage_patents_length)
  have 4: "snd (main read_digits read_digits (readable_extracts\<lparr>patent_csv := Inl FileNotFoundError\<rparr>)
        empty_store) = Some FileNotFoundError
   \<and> length (exclusivity (fst (main read_digits read_digits
        (readable_extracts\<lparr>patent_csv := Inl FileNotFoundError\<rparr>) empty_store))) = 1
   \<and> patent (fst (main read_digits read_digits
        (readable_extracts\<lparr>patent_csv := Inl FileNotFoundError\<rparr>) empty_store)) = []"
    using t [where x = "readable_extracts\<lparr>patent_csv := Inl FileNotFoundError\<rparr>" and e = FileNotFoundError]
    by (simp add: readable_extracts_def empty_store_def
        stage_frames stage_products_length stage_exclusivity_length stage_patents_length)
  have 5: "snd (main read_digits read_digits (readable_extracts\<lparr>sales_csv := Inl UnicodeDecodeError\<rparr>)
        empty_store) = Some UnicodeDecodeError
   \<and> length (patent (fst (main read_digits read_digits
        (readable_extracts\<lparr>sales_csv := Inl UnicodeDecodeError\<rparr>) empty_store))) = 1
   \<and> sales (fst (main read_digits read_digits
        (readable_extracts\<lparr>sales_csv := Inl UnicodeDecodeError\<rparr>) empty_store)) = []"
    using t [where x = "readable_extracts\<lparr>sales_csv := Inl UnicodeDecodeError\<rparr>" and e = UnicodeDecodeError]
    by (simp add: readable_extracts_def empty_store_def
        stage_frames stage_products_length stage_exclusivity_length stage_patents_length)
  from 1 2 3 4 5 show ?thesis
    by (intro conjI) (erule conjunct1 conjunct2 | assumption | (drule conjunct2, erule conjunct1 conjunct2))+
qed

text \<open>
  C4 as stated fails when the exclusivity extract cannot be read: \<^verbatim>\<open>load_products\<close> has
  committed the products row before \<^verbatim>\<open>load_exclusivity\<close> reads its file.
\<close>

theorem read_failure_after_commit_counterexample:
  "exclusivity_csv exclusivity_unreadable = Inl FileNotFoundError
   \<and> snd (main read_digits read_digits exclusivity_unreadable empty_store) = Some FileNotFoundError
   \<and> products empty_store = []
   \<and> length (products (fst (main read_digits read_digits exclusivity_unreadable empty_store))) = 1
   \<and> fst (main read_digits read_digits exclusivity_unreadable empty_store) \<noteq> empty_store"
proof -
  have m: "main read_digits read_digits exclusivity_unreadable empty_store
      = (stage_products [products_row ''N001''] empty_store, Some FileNotFoundError)"
    by (simp add: main_def exclusivity_unreadable_def readable_extracts_def)
  have l: "length (products (stage_products [products_row ''N001''] empty_store)) = 1"
    by (simp add: stage_products_length empty_store_def)
  then have "stage_products [products_row ''N001''] empty_store \<noteq> empty_store"
    by (auto simp: empty_store_def)
  with l show ?thesis
    unfolding m by (simp add: exclusivity_unreadable_def readable_extracts_def empty_store_def)
qed

section \<open>Properties of the parsers\<close>

lemma py_strip_empty_iff: "py_strip s = [] \<longleftrightarrow> (\<forall>c \<in> set s. py_isspace c)"
proof
  assume "py_strip s = []"
  then have "\<forall>c \<in> set (dropWhile py_isspace s). py_isspace c"
    by (simp add: py_strip_def dropWhile_eq_Nil_conv)
  then have "dropWhile py_isspace s = []"
    using hd_dropWhile [of py_isspace s] hd_in_set [of "dropWhile py_isspace s"] by blast
  then show "\<forall>c \<in> set s. py_isspace c"
    by (simp add: dropWhile_eq_Nil_conv)
next
  assume "\<forall>c \<in> set s. py_isspace c"
  then show "py_strip s = []"
    by (auto simp: py_strip_def dropWhile_eq_Nil_conv dest: set_dropWhileD)
qed

lemma py_strip_remove_char: "py_strip s = [] \<Longrightarrow> py_strip (remove_char c s) = []"
  by (auto simp: py_strip_empty_iff remove_char_def)

lemma py_strip_id:
  assumes "s \<noteq> []" "\<not> py_isspace (hd s)" "\<not> py_isspace (last s)"
  shows "py_strip s = s"
proof -
  have 1: "dropWhile py_isspace s = s"
    using assms by (cases s) auto
  have "rev s \<noteq> []" "\<not> py_isspace (hd (rev s))"
    using assms by (simp_all add: hd_rev)
  then have 2: "dropWhile py_isspace (rev s) = rev s"
    by (cases "rev s") auto
  show ?thesis
    by (simp add: py_strip_def 1 2)
qed

lemma digit_not_space: "digit c \<Longrightarrow> \<not> py_isspace c"
  by (auto simp: digit_def py_isspace_def)

lemma digit_not_dash: "digit c \<Longrightarrow> c \<noteq> CHR ''-''"
  by (auto simp: digit_def)

lemma month_text_no_dash: "month_text m \<Longrightarrow> CHR ''-'' \<notin> set m"
  by (auto simp: month_text_def dest: digit_not_dash split: list.splits)

lemma strptime_ymd_iff:
  "strptime_ymd s = Inr d \<longleftrightarrow>
     (\<exists>Y M D. s = Y @ ''-'' @ M @ ''-'' @ D \<and> length Y = 4 \<and> list_all digit Y
        \<and> month_text M \<and> day_text D
        \<and> make_date (digits_val Y) (digits_val M)
             (digits_val (filter (\<lambda>c. c \<noteq> CHR '' '') D)) = Inr d)"
proof
  assume a: "strptime_ymd s = Inr d"
  define Y where "Y = take 4 s"
  define r2 where "r2 = tl (drop 4 s)"
  define M where "M = takeWhile (\<lambda>c. c \<noteq> CHR ''-'') r2"
  define r3 where "r3 = dropWhile (\<lambda>c. c \<noteq> CHR ''-'') r2"
  from a have c1: "length Y = 4" "list_all digit Y" "drop 4 s \<noteq> []" "hd (drop 4 s) = CHR ''-''"
    by (auto simp: strptime_ymd_def Let_def Y_def split: if_splits)
  from a c1 have c2: "month_text M" "r3 \<noteq> []" "day_text (tl r3)"
      "make_date (digits_val Y) (digits_val M)
         (digits_val (filter (\<lambda>c. c \<noteq> CHR '' '') (tl r3))) = Inr d"
    by (auto simp: strptime_ymd_def Let_def Y_def M_def r3_def r2_def split: if_splits)
  have "hd r3 = CHR ''-''"
    using c2(2) hd_dropWhile [of "\<lambda>c. c \<noteq> CHR ''-''" r2] by (simp add: r3_def)
  then have r3: "r3 = CHR ''-'' # tl r3"
    using c2(2) by (cases r3) auto
  have "drop 4 s = CHR ''-'' # r2"
    using c1(3,4) by (cases "drop 4 s") (auto simp: r2_def)
  moreover have "r2 = M @ r3"
    by (simp add: M_def r3_def)
  moreover have "s = Y @ drop 4 s"
    by (simp add: Y_def)
  ultimately have "s = Y @ ''-'' @ M @ ''-'' @ tl r3"
    using r3 by simp
  with c1 c2 show "\<exists>Y M D. s = Y @ ''-'' @ M @ ''-'' @ D \<and> length Y = 4 \<and> list_all digit Y
        \<and> month_text M \<and> day_text D
        \<and> make_date (digits_val Y) (digits_val M)
             (digits_val (filter (\<lambda>c. c \<noteq> CHR '' '') D)) = Inr d"
    by blast
next
  assume "\<exists>Y M D. s = Y @ ''-'' @ M @ ''-'' @ D \<and> length Y = 4 \<and> list_all digit Y
        \<and> month_text M \<and> day_text D
        \<and> make_date (digits_val Y) (digits_val M)
             (digits_val (filter (\<lambda>c. c \<noteq> CHR '' '') D)) = Inr d"
  then obtain Y M D where s: "s = Y @ ''-'' @ M @ ''-'' @ D" and Y: "length Y = 4" "list_all digit Y"
      and M: "month_text M" and D: "day_text D"
      and mk: "make_date (digits_val Y) (digits_val M)
             (digits_val (filter (\<lambda>c. c \<noteq> CHR '' '') D)) = Inr d"
    by blast
  have tw: "takeWhile (\<lambda>c. c \<noteq> CHR ''-'') (M @ CHR ''-'' # D) = M"
    using month_text_no_dash [OF M] by (induction M) auto
  have dw: "dropWhile (\<lambda>c. c \<noteq> CHR ''-'') (M @ CHR ''-'' # D) = CHR ''-'' # D"
    using month_text_no_dash [OF M] by (induction M) auto
  show "strptime_ymd s = Inr d"
    using Y M D mk by (simp add: strptime_ymd_def s tw dw)
qed

lemma char_by_code: "(of_char a :: nat) = of_char b \<Longrightarrow> a = b"
  by simp

lemma digit_val_eq:
  assumes "digit a"
  shows "(a = CHR ''0'') = (digit_val a = 0)" "(a = CHR ''1'') = (digit_val a = 1)"
    "(a = CHR ''2'') = (digit_val a = 2)" "(a = CHR ''3'') = (digit_val a = 3)"
    "digit_val a \<le> 9" "a \<noteq> CHR '' ''"
proof -
  have r: "48 \<le> (of_char a :: nat)" "(of_char a :: nat) \<le> 57"
    using assms by (simp_all add: digit_def)
  show "(a = CHR ''0'') = (digit_val a = 0)"
    using r char_by_code [of a "CHR ''0''"] by (auto simp: digit_val_def)
  show "(a = CHR ''1'') = (digit_val a = 1)"
    using r char_by_code [of a "CHR ''1''"] by (auto simp: digit_val_def)
  show "(a = CHR ''2'') = (digit_val a = 2)"
    using r char_by_code [of a "CHR ''2''"] by (auto simp: digit_val_def)
  show "(a = CHR ''3'') = (digit_val a = 3)"
    using r char_by_code [of a "CHR ''3''"] by (auto simp: digit_val_def)
  show "digit_val a \<le> 9"
    using r by (simp add: digit_val_def)
  show "a \<noteq> CHR '' ''"
    using r by auto
qed

lemma digits_val_two: "digits_val [a, b] = 10 * digit_val a + digit_val b"
  by (simp add: digits_val_def)

lemma month_text_two:
  assumes "digit a" "digit b"
  shows "month_text [a, b] \<longleftrightarrow> 1 \<le> digits_val [a, b] \<and> digits_val [a, b] \<le> 12"
proof -
  define x y where "x = digit_val a" and "y = digit_val b"
  have m: "month_text [a, b] \<longleftrightarrow> (x = 1 \<and> y \<le> 2) \<or> (x = 0 \<and> y \<noteq> 0)"
    by (simp add: month_text_def assms digit_val_eq(1,2) [OF assms(1)]
        digit_val_eq(1) [OF assms(2)] x_def y_def)
  have b: "x \<le> 9" "y \<le> 9"
    using digit_val_eq(5) [OF assms(1)] digit_val_eq(5) [OF assms(2)] by (simp_all add: x_def y_def)
  have v: "digits_val [a, b] = 10 * x + y"
    by (simp add: digits_val_two x_def y_def)
  show ?thesis
    unfolding m v using b by arith
qed

lemma day_text_two:
  assumes "digit a" "digit b"
  shows "day_text [a, b] \<longleftrightarrow> 1 \<le> digits_val [a, b] \<and> digits_val [a, b] \<le> 31"
proof -
  define x y where "x = digit_val a" and "y = digit_val b"
  have m: "day_text [a, b] \<longleftrightarrow>
      (x = 3 \<and> y \<le> 1) \<or> (x = 1 \<or> x = 2) \<or> (x = 0 \<and> y \<noteq> 0)"
    by (simp add: day_text_def assms digit_val_eq(1,2,3,4,6) [OF assms(1)]
        digit_val_eq(1) [OF assms(2)] x_def y_def)
  have b: "x \<le> 9" "y \<le> 9"
    using digit_val_eq(5) [OF assms(1)] digit_val_eq(5) [OF assms(2)] by (simp_all add: x_def y_def)
  have v: "digits_val [a, b] = 10 * x + y"
    by (simp add: digits_val_two x_def y_def)
  show ?thesis
    unfolding m v using b by arith
qed

lemma days_in_month_le: "days_in_month y m \<le> 31"
  by (simp add: days_in_month_def)

lemma two_elems: "length xs = 2 \<Longrightarrow> \<exists>a b. xs = [a, b]"
  by (cases xs; cases "tl xs") auto

lemma ymd_format_accepted:
  assumes f: "ymd_format s"
    and mk: "make_date (digits_val (take 4 s)) (digits_val (take 2 (drop 5 s)))
               (digits_val (drop 8 s)) = Inr d"
  shows "parse_date (Val s) = Some d"
proof -
  define Y M D where "Y = take 4 s" and "M = take 2 (drop 5 s)" and "D = drop 8 s"
  from f have len: "length s = 10" and dY: "list_all digit Y" and dM: "list_all digit M"
      and dD: "list_all digit D" and d4: "s ! 4 = CHR ''-''" and d7: "s ! 7 = CHR ''-''"
    by (simp_all add: ymd_format_def Y_def M_def D_def)
  have s1: "s = Y @ s ! 4 # drop 5 s"
    using id_take_nth_drop [of 4 s] len by (simp add: Y_def)
  have "drop 5 s = M @ (drop 5 s) ! 2 # drop 3 (drop 5 s)"
    using id_take_nth_drop [of 2 "drop 5 s"] len by (simp add: M_def)
  then have s2: "drop 5 s = M @ s ! 7 # D"
    using len by (simp add: D_def)
  have s: "s = Y @ ''-'' @ M @ ''-'' @ D"
    using s1 s2 d4 d7 by simp
  obtain a b where M: "M = [a, b]"
    using two_elems [of M] len by (auto simp: M_def)
  obtain c e where D: "D = [c, e]"
    using two_elems [of D] len by (auto simp: D_def)
  from mk have rng: "1 \<le> digits_val M" "digits_val M \<le> 12" "1 \<le> digits_val D"
      "digits_val D \<le> days_in_month (digits_val Y) (digits_val M)"
    by (auto simp: make_date_def Y_def M_def D_def split: if_splits)
  have mt: "month_text M"
    using dM rng(1,2) unfolding M by (simp add: month_text_two)
  have "digits_val D \<le> 31"
    using rng(4) days_in_month_le [of "digits_val Y" "digits_val M"] by simp
  then have dt: "day_text D"
    using dD rng(3) unfolding D by (simp add: day_text_two)
  have nf: "filter (\<lambda>c. c \<noteq> CHR '' '') D = D"
    using dD unfolding D by (auto dest: digit_val_eq(6))
  have lY: "length Y = 4"
    using len by (simp add: Y_def)
  have "make_date (digits_val Y) (digits_val M) (digits_val D) = Inr d"
    using mk by (simp only: Y_def M_def D_def)
  then have mk': "make_date (digits_val Y) (digits_val M)
      (digits_val (filter (\<lambda>c. c \<noteq> CHR '' '') D)) = Inr d"
    by (simp only: nf)
  have st: "strptime_ymd s = Inr d"
    unfolding strptime_ymd_iff
    by (intro exI [of _ Y] exI [of _ M] exI [of _ D] conjI s lY dY mt dt mk')
  have "s \<noteq> []" using len by auto
  moreover have "digit (hd s)"
    using dY len by (cases s) (auto simp: Y_def)
  moreover have "digit (last s)"
  proof -
    have "last s = last D"
      using len by (simp add: D_def last_drop)
    then show ?thesis
      using dD unfolding D by simp
  qed
  ultimately have "py_strip s = s"
    by (intro py_strip_id) (auto dest: digit_not_space)
  with st \<open>s \<noteq> []\<close> show ?thesis
    by (simp add: parse_date_def isna_def)
qed

lemma parse_date_iff:
  "parse_date v = Some d \<longleftrightarrow>
     \<not> isna v \<and> (\<exists>Y M D. py_strip (str v) = Y @ ''-'' @ M @ ''-'' @ D \<and> length Y = 4
        \<and> list_all digit Y \<and> month_text M \<and> day_text D
        \<and> make_date (digits_val Y) (digits_val M)
             (digits_val (filter (\<lambda>c. c \<noteq> CHR '' '') D)) = Inr d)"
proof -
  have "strptime_ymd [] = Inl ValueError"
    by (simp add: strptime_ymd_def)
  then have "parse_date v = Some d \<longleftrightarrow> \<not> isna v \<and> strptime_ymd (py_strip (str v)) = Inr d"
    by (auto simp: parse_date_def split: sum.splits)
  then show ?thesis
    by (simp only: strptime_ymd_iff)
qed

lemma parse_int_cases:
  "parse_int ib v = Some n \<Longrightarrow> \<not> isna v \<and> ib (py_strip (remove_char CHR '','' (str v))) = Inr n"
  by (auto simp: parse_int_def Let_def split: if_splits sum.splits)

lemma parse_decimal_cases:
  "parse_decimal fb v = Some x \<Longrightarrow>
   \<not> isna v \<and> fb (py_strip (remove_char CHR '' '' (remove_char CHR '','' (remove_char CHR ''$'' (str v))))) = Inr x"
  by (auto simp: parse_decimal_def Let_def split: if_splits sum.splits)

text \<open>
  C6 (as amended). The normalizers return a value on every input; the exceptions of
  \<^verbatim>\<open>strptime\<close>, \<^verbatim>\<open>float\<close> and \<^verbatim>\<open>int\<close> never leave them. A missing value and a text that is
  empty or all whitespace give null from the three parsers; a text the builtin raises
  on gives null from \<^verbatim>\<open>parse_int\<close> and \<^verbatim>\<open>parse_decimal\<close>, which return a number only when
  the builtin returns it for the cleaned text. \<^verbatim>\<open>parse_date\<close> returns a date exactly
  when the trimmed text is a four-digit year, a dash, a month of one or two digits, a
  dash and a day of one or two digits (or a space and one digit) that make a calendar
  date; every text in the format \<^verbatim>\<open>YYYY-MM-DD\<close> that names a calendar date is among
  them. \<^verbatim>\<open>zero_pad\<close> returns null on \<^verbatim>\<open>None\<close> and on empty or all-whitespace text, and
  \<^verbatim>\<open>"00123"\<close> for \<^verbatim>\<open>"123"\<close> with width 5.
\<close>

theorem normalizers_null_on_malformed:
  "(isna v \<or> py_strip (str v) = [] \<longrightarrow>
      parse_date v = None \<and> parse_decimal fb v = None \<and> parse_int ib v = None)
   \<and> (ib (py_strip (remove_char CHR '','' (str v))) = Inl e \<longrightarrow> parse_int ib v = None)
   \<and> (fb (py_strip (remove_char CHR '' '' (remove_char CHR '','' (remove_char CHR ''$'' (str v)))))
        = Inl e \<longrightarrow> parse_decimal fb v = None)
   \<and> (parse_int ib v = Some n \<longrightarrow>
        \<not> isna v \<and> ib (py_strip (remove_char CHR '','' (str v))) = Inr n)
   \<and> (parse_decimal fb v = Some x \<longrightarrow>
        \<not> isna v
        \<and> fb (py_strip (remove_char CHR '' '' (remove_char CHR '','' (remove_char CHR ''$'' (str v)))))
            = Inr x)
   \<and> (parse_date v = Some d \<longleftrightarrow>
        \<not> isna v \<and> (\<exists>Y M D. py_strip (str v) = Y @ ''-'' @ M @ ''-'' @ D \<and> length Y = 4
           \<and> list_all digit Y \<and> month_text M \<and> day_text D
           \<and> make_date (digits_val Y) (digits_val M)
                (digits_val (filter (\<lambda>c. c \<noteq> CHR '' '') D)) = Inr d))
   \<and> (ymd_format s
        \<and> make_date (digits_val (take 4 s)) (digits_val (take 2 (drop 5 s)))
             (digits_val (drop 8 s)) = Inr d' \<longrightarrow>
        parse_date (Val s) = Some d')
   \<and> (code = PyNone \<or> py_strip (str code) = [] \<longrightarrow> zero_pad code w = None)
   \<and> zero_pad (Val ''123'') 5 = Some ''00123''"
proof (intro conjI impI)
  assume "isna v \<or> py_strip (str v) = []"
  then show "parse_date v = None" "parse_decimal fb v = None" "parse_int ib v = None"
    by (auto simp: parse_date_def parse_decimal_def parse_int_def)
next
  assume "ib (py_strip (remove_char CHR '','' (str v))) = Inl e"
  then show "parse_int ib v = None"
    by (simp add: parse_int_def Let_def)
next
  assume "fb (py_strip (remove_char CHR '' '' (remove_char CHR '','' (remove_char CHR ''$'' (str v)))))
        = Inl e"
  then show "parse_decimal fb v = None"
    by (simp add: parse_decimal_def Let_def)
next
  assume "parse_int ib v = Some n"
  then show "\<not> isna v" "ib (py_strip (remove_char CHR '','' (str v))) = Inr n"
    by (simp_all add: parse_int_cases)
next
  assume "parse_decimal fb v = Some x"
  then show "\<not> isna v"
    "fb (py_strip (remove_char CHR '' '' (remove_char CHR '','' (remove_char CHR ''$'' (str v)))))
            = Inr x"
    by (simp_all add: parse_decimal_cases)
next
  show "parse_date v = Some d \<longleftrightarrow>
        \<not> isna v \<and> (\<exists>Y M D. py_strip (str v) = Y @ ''-'' @ M @ ''-'' @ D \<and> length Y = 4
           \<and> list_all digit Y \<and> month_text M \<and> day_text D
           \<and> make_date (digits_val Y) (digits_val M)
                (digits_val (filter (\<lambda>c. c \<noteq> CHR '' '') D)) = Inr d)"
    by (rule parse_date_iff)
next
  assume "ymd_format s
        \<and> make_date (digits_val (take 4 s)) (digits_val (take 2 (drop 5 s)))
             (digits_val (drop 8 s)) = Inr d'"
  then show "parse_date (Val s) = Some d'"
    by (simp add: ymd_format_accepted)
next
  assume "code = PyNone \<or> py_strip (str code) = []"
  then show "zero_pad code w = None"
    by (auto simp: zero_pad_def)
next
  show "zero_pad (Val ''123'') 5 = Some ''00123''"
    by (simp add: zero_pad_def py_strip_def py_isspace_def zfill_def numeral_2_eq_2)
qed

lemma normalizer_examples:
  "py_strip (str (Val ''   '')) = []"
  "read_digits (py_strip (remove_char CHR '','' (str (Val ''12a'')))) = Inl ValueError"
  "read_digits (py_strip (remove_char CHR '' '' (remove_char CHR '','' (remove_char CHR ''$''
     (str (Val ''$abc'')))))) = Inl ValueError"
  "parse_int read_digits (Val '' 1,250 '') = Some 1250"
  "parse_decimal read_digits (Val ''$1,250'') = Some 1250"
  "parse_date (Val ''2020-1-5'') = Some \<lparr>year = 2020, month = 1, day = 5\<rparr>"
  "ymd_format ''2001-01-05''"
  "make_date (digits_val (take 4 ''2001-01-05'')) (digits_val (take 2 (drop 5 ''2001-01-05'')))
     (digits_val (drop 8 ''2001-01-05'')) = Inr \<lparr>year = 2001, month = 1, day = 5\<rparr>"
  "\<not> ymd_format (py_strip ''2020-1-5'')"
  by code_simp+

text \<open>
  The theorem on blank text, a missing value, garbage for the integer and the decimal
  parser, numbers with separators, dates with and without padding, and the inputs of
  \<^verbatim>\<open>zero_pad\<close> the spec names.
\<close>

theorem normalizers_null_on_malformed_witness:
  "py_strip (str (Val ''   '')) = []
   \<and> parse_date (Val ''   '') = None \<and> parse_decimal read_digits (Val ''   '') = None
   \<and> parse_int read_digits (Val ''   '') = None
   \<and> parse_date NaN = None \<and> parse_int read_digits NaN = None
   \<and> read_digits (py_strip (remove_char CHR '','' (str (Val ''12a'')))) = Inl ValueError
   \<and> parse_int read_digits (Val ''12a'') = None
   \<and> read_digits (py_strip (remove_char CHR '' '' (remove_char CHR '','' (remove_char CHR ''$''
        (str (Val ''$abc'')))))) = Inl ValueError
   \<and> parse_decimal read_digits (Val ''$abc'') = None
   \<and> parse_int read_digits (Val '' 1,250 '') = Some 1250
   \<and> read_digits (py_strip (remove_char CHR '','' (str (Val '' 1,250 '')))) = Inr 1250
   \<and> parse_decimal read_digits (Val ''$1,250'') = Some 1250
   \<and> parse_date (Val ''2020-1-5'') = Some \<lparr>year = 2020, month = 1, day = 5\<rparr>
   \<and> ymd_format ''2001-01-05''
   \<and> parse_date (Val ''2001-01-05'') = Some \<lparr>year = 2001, month = 1, day = 5\<rparr>
   \<and> zero_pad (Val ''   '') 5 = None \<and> zero_pad (Val []) 5 = None \<and> zero_pad PyNone 5 = None
   \<and> zero_pad (Val ''123'') 5 = Some ''00123''"
proof -
  note t = normalizers_null_on_malformed [where ib = read_digits and fb = read_digits]
  have blank: "parse_date (Val ''   '') = None \<and> parse_decimal read_digits (Val ''   '') = None
      \<and> parse_int read_digits (Val ''   '') = None"
    using t [where v = "Val ''   ''"] normalizer_examples(1) by blast
  have nan: "parse_date NaN = None \<and> parse_int read_digits NaN = None"
    using t [where v = NaN] by (simp add: isna_def)
  have bad_int: "parse_int read_digits (Val ''12a'') = None"
    using t [where v = "Val ''12a''" and e = ValueError] normalizer_examples(2) by blast
  have bad_dec: "parse_decimal read_digits (Val ''$abc'') = None"
    using t [where v = "Val ''$abc''" and e = ValueError] normalizer_examples(3) by blast
  have good_int: "read_digits (py_strip (remove_char CHR '','' (str (Val '' 1,250 '')))) = Inr 1250"
    using t [where v = "Val '' 1,250 ''" and n = 1250] normalizer_examples(4) by blast
  have iso: "parse_date (Val ''2001-01-05'') = Some \<lparr>year = 2001, month = 1, day = 5\<rparr>"
    using t [where s = "''2001-01-05''" and d' = "\<lparr>year = 2001, month = 1, day = 5\<rparr>"]
      normalizer_examples(7) normalizer_examples(8) by blast
  have zp: "zero_pad (Val ''   '') 5 = None"
    using t [where code = "Val ''   ''" and w = 5] normalizer_examples(1) by blast
  have zp2: "zero_pad (Val []) 5 = None"
    using t [where code = "Val []" and w = 5] by (simp add: py_strip_def)
  have zp3: "zero_pad PyNone 5 = None"
    using t [where code = PyNone and w = 5] by blast
  have zp4: "zero_pad (Val ''123'') 5 = Some ''00123''"
    using t by blast
  show ?thesis
    by (intro conjI normalizer_examples(1-7) nan [THEN conjunct1]
        nan [THEN conjunct2] bad_int bad_dec good_int iso zp zp2 zp3 zp4
        blank [THEN conjunct1] blank [THEN conjunct2, THEN conjunct1]
        blank [THEN conjunct2, THEN conjunct2])
qed

text \<open>
  C6 as stated fails on its date format: \<^verbatim>\<open>parse_date("2020-1-5")\<close> is the date
  2020-01-05, though the text is not in the format \<^verbatim>\<open>YYYY-MM-DD\<close>.
\<close>

theorem parse_date_unpadded_counterexample:
  "parse_date (Val ''2020-1-5'') = Some \<lparr>year = 2020, month = 1, day = 5\<rparr>
   \<and> \<not> ymd_format (py_strip ''2020-1-5'')"
  by (intro conjI normalizer_examples(6) normalizer_examples(9))

end
